theory Spec2Isabelle
  imports Complex_Main "HOL-Library.Log_Nat"
begin

section \<open>Byte strings\<close>

text \<open>
  A Go string or byte slice is a sequence of bytes: \<^typ>\<open>string\<close>, one \<^typ>\<open>char\<close> per byte.
  The functions of this section are those of the Go standard library that
  \<open>parseResult\<close> calls (\<open>bytes.Contains\<close>, \<open>bytes.Split\<close>, \<open>bytes.TrimSpace\<close>), written
  after the library's own loops.
\<close>

definition byte :: "char \<Rightarrow> nat" where
  "byte c = of_char c"

definition HasPrefix :: "string \<Rightarrow> string \<Rightarrow> bool" where
  "HasPrefix s prefix = (length prefix \<le> length s \<and> take (length prefix) s = prefix)"

text \<open>\<open>bytes.Index\<close>: the index of the first instance of \<open>sep\<close>, \<open>None\<close> for \<open>-1\<close>.\<close>

fun Index :: "string \<Rightarrow> string \<Rightarrow> nat option" where
  "Index [] sep = (if sep = [] then Some 0 else None)"
| "Index (c # cs) sep =
     (if HasPrefix (c # cs) sep then Some 0 else map_option Suc (Index cs sep))"

definition Contains :: "string \<Rightarrow> string \<Rightarrow> bool" where
  "Contains b subslice = (Index b subslice \<noteq> None)"

lemma Index_bound: "Index s sep = Some m \<Longrightarrow> m + length sep \<le> length s"
proof (induction s arbitrary: m)
  case Nil
  then show ?case by (simp split: if_splits)
next
  case (Cons c cs)
  show ?case
  proof (cases "HasPrefix (c # cs) sep")
    case True
    with Cons.prems show ?thesis by (simp add: HasPrefix_def)
  next
    case False
    with Cons.prems obtain k where "Index cs sep = Some k" "m = Suc k" by auto
    with Cons.IH show ?thesis by fastforce
  qed
qed

text \<open>
  \<open>bytes.Split\<close> with a non-empty separator: the loop of \<open>genSplit\<close>, which cuts at the
  first instance of \<open>sep\<close> and goes on behind it until there is none. (With an empty
  separator the library cuts after every UTF-8 sequence; \<open>parseResult\<close> only splits at
  its two fence markers, and the model leaves the text whole there.)
\<close>

function Split :: "string \<Rightarrow> string \<Rightarrow> string list" where
  "Split s sep =
     (if sep = [] then [s]
      else case Index s sep of
             None \<Rightarrow> [s]
           | Some m \<Rightarrow> take m s # Split (drop (m + length sep) s) sep)"
  by pat_completeness auto
termination
proof (relation "measure (\<lambda>(s, sep). length s)")
  show "wf (measure (\<lambda>(s, sep). length s))" by simp
next
  fix s sep :: string and m
  assume "sep \<noteq> []" and "Index s sep = Some m"
  then have "m + length sep \<le> length s"
    using Index_bound by auto
  with \<open>sep \<noteq> []\<close> have "length (drop (m + length sep) s) < length s"
    by (cases sep) auto
  then show "((drop (m + length sep) s, sep), (s, sep)) \<in> measure (\<lambda>(s, sep). length s)"
    by simp
qed

declare Split.simps [simp del]

subsection \<open>UTF-8 and white space\<close>

definition RuneError :: nat where
  "RuneError = 0xFFFD"

definition RuneSelf :: nat where
  "RuneSelf = 0x80"

text \<open>
  \<open>utf8.DecodeRune\<close>: the first UTF-8 sequence of \<open>p\<close> and its width; \<open>(RuneError, 1)\<close>
  for a malformed one, \<open>(RuneError, 0)\<close> for the empty slice. The case distinction on
  the first byte is the library's \<open>first\<close> table with its accept ranges.
\<close>

definition cont :: "char \<Rightarrow> bool" where
  "cont b = (0x80 \<le> byte b \<and> byte b \<le> 0xBF)"

definition maskx :: "char \<Rightarrow> nat" where
  "maskx b = byte b mod 64"

fun DecodeRune :: "string \<Rightarrow> nat \<times> nat" where
  "DecodeRune [] = (RuneError, 0)"
| "DecodeRune (p0 # p) =
     (let x = byte p0 in
      if x < 0x80 then (x, 1)
      else if x < 0xC2 \<or> 0xF4 < x then (RuneError, 1)
      else
        let sz = (if x < 0xE0 then 2 else if x < 0xF0 then 3 else 4 :: nat);
            lo = (if x = 0xE0 then 0xA0 else if x = 0xF0 then 0x90 else 0x80 :: nat);
            hi = (if x = 0xED then 0x9F else if x = 0xF4 then 0x8F else 0xBF :: nat)
        in if length (p0 # p) < sz then (RuneError, 1)
           else
             (case p of
                b1 # p' \<Rightarrow>
                  if byte b1 < lo \<or> hi < byte b1 then (RuneError, 1)
                  else if sz \<le> 2 then ((x mod 32) * 64 + maskx b1, 2)
                  else
                    (case p' of
                       b2 # p'' \<Rightarrow>
                         if \<not> cont b2 then (RuneError, 1)
                         else if sz \<le> 3 then ((x mod 16) * 4096 + maskx b1 * 64 + maskx b2, 3)
                         else
                           (case p'' of
                              b3 # _ \<Rightarrow>
                                if \<not> cont b3 then (RuneError, 1)
                                else ((x mod 8) * 262144 + maskx b1 * 4096
                                        + maskx b2 * 64 + maskx b3, 4)
                            | [] \<Rightarrow> (RuneError, 1))
                     | [] \<Rightarrow> (RuneError, 1))
              | [] \<Rightarrow> (RuneError, 1)))"

definition RuneStart :: "char \<Rightarrow> bool" where
  "RuneStart b = (\<not> cont b)"

text \<open>
  \<open>utf8.DecodeLastRune\<close>: steps back over at most three continuation bytes to the start
  of the last sequence and decodes from there.
\<close>

function backToStart :: "string \<Rightarrow> int \<Rightarrow> int \<Rightarrow> int" where
  "backToStart p limit start =
     (if start < limit then start
      else if RuneStart (p ! nat start) then start
      else backToStart p limit (start - 1))"
  by pat_completeness auto
termination
  by (relation "measure (\<lambda>(p, limit, start). nat (start - limit + 1))") auto

declare backToStart.simps [simp del]

definition DecodeLastRune :: "string \<Rightarrow> nat \<times> nat" where
  "DecodeLastRune p =
     (let n = length p in
      if n = 0 then (RuneError, 0)
      else if byte (p ! (n - 1)) < RuneSelf then (byte (p ! (n - 1)), 1)
      else
        let limit = max 0 (int n - 4);
            start = nat (max 0 (backToStart p limit (int n - 2)));
            (r, size) = DecodeRune (drop start p)
        in if start + size \<noteq> n then (RuneError, 1) else (r, size))"

text \<open>\<open>unicode.IsSpace\<close>: the Latin-1 cases, then the \<open>White_Space\<close> range table.\<close>

definition IsSpace :: "nat \<Rightarrow> bool" where
  "IsSpace r =
     (if r \<le> 0xFF then r \<in> {0x09, 0x0A, 0x0B, 0x0C, 0x0D, 0x20, 0x85, 0xA0}
      else r = 0x1680 \<or> (0x2000 \<le> r \<and> r \<le> 0x200A) \<or> r = 0x2028 \<or> r = 0x2029
           \<or> r = 0x202F \<or> r = 0x205F \<or> r = 0x3000)"

definition asciiSpace :: "char \<Rightarrow> bool" where
  "asciiSpace c = (byte c \<in> {0x09, 0x0A, 0x0B, 0x0C, 0x0D, 0x20})"

lemma DecodeRune_width: "s \<noteq> [] \<Longrightarrow> 0 < snd (DecodeRune s)"
  by (cases s) (simp_all add: Let_def split: list.splits)

lemma backToStart_le: "backToStart p limit start \<le> start"
proof (induction p limit start rule: backToStart.induct)
  case (1 p limit start)
  then show ?case by (subst backToStart.simps) auto
qed

lemma DecodeLastRune_width:
  assumes "s \<noteq> []"
  shows "0 < snd (DecodeLastRune s)"
proof (cases "byte (s ! (length s - 1)) < RuneSelf")
  case True
  then show ?thesis using assms by (simp add: DecodeLastRune_def Let_def)
next
  case False
  define start
    where "start = nat (max 0 (backToStart s (max 0 (int (length s) - 4)) (int (length s) - 2)))"
  obtain r sz where d: "DecodeRune (drop start s) = (r, sz)"
    by (cases "DecodeRune (drop start s)")
  have "start < length s"
    using backToStart_le [of s "max 0 (int (length s) - 4)" "int (length s) - 2"] assms
    by (cases s) (auto simp: start_def)
  then have "0 < sz"
    using DecodeRune_width [of "drop start s"] d by simp
  have "DecodeLastRune s = (if start + sz \<noteq> length s then (RuneError, 1) else (r, sz))"
    using False assms d unfolding DecodeLastRune_def Let_def start_def [symmetric]
    by simp
  with \<open>0 < sz\<close> show ?thesis by simp
qed

text \<open>
  \<open>bytes.TrimLeftFunc\<close> with \<open>unicode.IsSpace\<close>: \<open>indexFunc\<close> walks the runes from the
  left to the first one that is not white space.
\<close>

function TrimLeftFunc :: "string \<Rightarrow> string" where
  "TrimLeftFunc s =
     (if s = [] then []
      else
        let (r, wid) = (if byte (hd s) \<ge> RuneSelf then DecodeRune s else (byte (hd s), 1))
        in if \<not> IsSpace r then s else TrimLeftFunc (drop wid s))"
  by pat_completeness auto
termination
proof (relation "measure length")
  show "wf (measure length)" by simp
next
  fix s :: string and x :: "nat \<times> nat" and r wid :: nat
  assume "s \<noteq> []"
    and x: "x = (if RuneSelf \<le> byte (hd s) then DecodeRune s else (byte (hd s), 1))"
    and rw: "(r, wid) = x"
  then have "0 < snd x"
    using DecodeRune_width [of s] by (simp split: if_splits)
  moreover have "wid = snd x"
    using rw by (metis snd_conv)
  ultimately have "0 < wid" by simp
  with \<open>s \<noteq> []\<close> show "(drop wid s, s) \<in> measure length"
    by simp
qed

declare TrimLeftFunc.simps [simp del]

text \<open>
  \<open>lastIndexFunc\<close> walks the runes from the right; \<open>None\<close> is the library's \<open>-1\<close>.
\<close>

function lastIndexFunc :: "string \<Rightarrow> nat option" where
  "lastIndexFunc s =
     (if s = [] then None
      else
        let (r, size) = (if byte (last s) \<ge> RuneSelf then DecodeLastRune s else (byte (last s), 1))
        in if \<not> IsSpace r then Some (length s - size)
           else lastIndexFunc (take (length s - size) s))"
  by pat_completeness auto
termination
proof (relation "measure length")
  show "wf (measure length)" by simp
next
  fix s :: string and x :: "nat \<times> nat" and r size :: nat
  assume "s \<noteq> []"
    and x: "x = (if RuneSelf \<le> byte (last s) then DecodeLastRune s else (byte (last s), 1))"
    and rs: "(r, size) = x"
  then have "0 < snd x"
    using DecodeLastRune_width [of s] by (simp split: if_splits)
  moreover have "size = snd x"
    using rs by (metis snd_conv)
  ultimately have "0 < size" by simp
  with \<open>s \<noteq> []\<close> show "(take (length s - size) s, s) \<in> measure length"
    by simp
qed

declare lastIndexFunc.simps [simp del]

definition TrimRightFunc :: "string \<Rightarrow> string" where
  "TrimRightFunc s =
     (case lastIndexFunc s of
        None \<Rightarrow> take 0 s
      | Some i \<Rightarrow>
          if byte (s ! i) \<ge> RuneSelf then take (i + snd (DecodeRune (drop i s))) s
          else take (i + 1) s)"

definition TrimFunc :: "string \<Rightarrow> string" where
  "TrimFunc s = TrimRightFunc (TrimLeftFunc s)"

text \<open>
  \<open>bytes.TrimSpace\<close>: the ASCII fast path from both ends, falling back to the
  rune-wise \<open>TrimFunc\<close> on what is left as soon as a byte outside ASCII shows up. The
  flag of the two helpers says that such a byte stopped the loop.
\<close>

fun trimStart :: "string \<Rightarrow> bool \<times> string" where
  "trimStart [] = (False, [])"
| "trimStart (c # cs) =
     (if byte c \<ge> RuneSelf then (True, c # cs)
      else if \<not> asciiSpace c then (False, c # cs)
      else trimStart cs)"

definition TrimSpace :: "string \<Rightarrow> string" where
  "TrimSpace s =
     (case trimStart s of
        (True, rest) \<Rightarrow> TrimFunc rest
      | (False, rest) \<Rightarrow>
          (case trimStart (rev rest) of
             (True, kept) \<Rightarrow> TrimFunc (rev kept)
           | (False, kept) \<Rightarrow> rev kept))"

section \<open>The result interpreter\<close>

text \<open>
  A slice index out of range panics in Go; \<open>index\<close> is the checked index, and the panic is
  a value of the model.
\<close>

datatype panic = IndexOutOfRange

definition index :: "'a list \<Rightarrow> nat \<Rightarrow> panic + 'a" where
  "index xs i = (if i < length xs then Inr (xs ! i) else Inl IndexOutOfRange)"

definition fenceJSON :: string where
  "fenceJSON = [CHR 0x60, CHR 0x60, CHR 0x60, CHR ''j'', CHR ''s'', CHR ''o'', CHR ''n'']"

definition fence :: string where
  "fence = [CHR 0x60, CHR 0x60, CHR 0x60]"

text \<open>
  Lines 277 to 291 of \<open>parseResult\<close>: the text that is handed to the JSON decoder.
\<close>

definition cleanText :: "string \<Rightarrow> panic + string" where
  "cleanText text =
     (if Contains text fenceJSON then
        (let parts = Split text fenceJSON in
         if length parts > 1 then
           (case index parts 1 of
              Inl e \<Rightarrow> Inl e
            | Inr p1 \<Rightarrow>
                (let parts2 = Split p1 fence in
                 if length parts2 > 0 then
                   (case index parts2 0 of
                      Inl e \<Rightarrow> Inl e
                    | Inr p \<Rightarrow> Inr (TrimSpace p))
                 else Inr text))
         else Inr text)
      else if Contains text fence then
        (let parts = Split text fence in
         if length parts > 2 then
           (case index parts 1 of
              Inl e \<Rightarrow> Inl e
            | Inr p \<Rightarrow> Inr (TrimSpace p))
         else Inr text)
      else Inr text)"

text \<open>
  What \<open>parseResult\<close> returns: the decoded \<open>map[string]interface{}\<close>, or the one-entry
  \<open>map[string]string{"text": text}\<close>. \<open>json.Unmarshal\<close> is the parameter \<open>unmarshal\<close>:
  \<open>Inl\<close> its error, \<open>Inr\<close> the map it stores.
\<close>

datatype 'm parsed = Structured 'm | TextOnly string

definition parseResult :: "(string \<Rightarrow> 'e + 'm) \<Rightarrow> string \<Rightarrow> panic + 'm parsed" where
  "parseResult unmarshal text =
     (case cleanText text of
        Inl e \<Rightarrow> Inl e
      | Inr clean \<Rightarrow>
          (case unmarshal clean of
             Inr jsonResult \<Rightarrow> Inr (Structured jsonResult)
           | Inl err \<Rightarrow> Inr (TextOnly text)))"

section \<open>The JSON decoder that \<open>parseResult\<close> calls\<close>

text \<open>
  \<open>json.Unmarshal\<close> first runs \<open>checkValid\<close>, the byte-at-a-time scanner of
  \<open>encoding/json\<close>, over the whole input. The scanner's \<open>step\<close> field holds one of its
  state functions; here it holds the function's name, and \<open>stepCall\<close> calls it. The
  stack \<open>parseState\<close> has its top at the head of the list.
\<close>

datatype scanCode =
    scanContinue | scanBeginLiteral | scanBeginObject | scanObjectKey | scanObjectValue
  | scanEndObject | scanBeginArray | scanArrayValue | scanEndArray | scanSkipSpace
  | scanEnd | scanError

datatype parseKind = parseObjectKey | parseObjectValue | parseArrayValue

datatype stateName =
    BeginValueOrEmpty | BeginValue | BeginStringOrEmpty | BeginString | EndValue | EndTop
  | InString | InStringEsc | InStringEscU | InStringEscU1 | InStringEscU12 | InStringEscU123
  | Neg | Digit1 | Digit0 | Dot | Dot0 | Exp | ESign | E0
  | LitT | LitTr | LitTru | LitF | LitFa | LitFal | LitFals | LitN | LitNu | LitNul
  | Failed

record scanner =
  step :: stateName
  endTop :: bool
  parseState :: "parseKind list"
  err :: bool

definition maxNestingDepth :: nat where
  "maxNestingDepth = 10000"

definition reset :: scanner where
  "reset = \<lparr>step = BeginValue, endTop = False, parseState = [], err = False\<rparr>"

definition isSpace :: "char \<Rightarrow> bool" where
  "isSpace c = (c = CHR '' '' \<or> c = CHR 0x09 \<or> c = CHR 0x0D \<or> c = CHR 0x0A)"

definition isDigit :: "char \<Rightarrow> bool" where
  "isDigit c = (byte (CHR ''0'') \<le> byte c \<and> byte c \<le> byte (CHR ''9''))"

definition isDigit19 :: "char \<Rightarrow> bool" where
  "isDigit19 c = (byte (CHR ''1'') \<le> byte c \<and> byte c \<le> byte (CHR ''9''))"

definition isHex :: "char \<Rightarrow> bool" where
  "isHex c = (isDigit c \<or> (byte (CHR ''a'') \<le> byte c \<and> byte c \<le> byte (CHR ''f''))
               \<or> (byte (CHR ''A'') \<le> byte c \<and> byte c \<le> byte (CHR ''F'')))"

text \<open>\<open>s.error\<close>: records the syntax error and parks the scanner in \<open>stateError\<close>.\<close>

definition fail :: "scanner \<Rightarrow> scanner \<times> scanCode" where
  "fail s = (s\<lparr>step := Failed, err := True\<rparr>, scanError)"

definition continue :: "scanner \<Rightarrow> stateName \<Rightarrow> scanner \<times> scanCode" where
  "continue s next = (s\<lparr>step := next\<rparr>, scanContinue)"

definition pushParseState :: "scanner \<Rightarrow> parseKind \<Rightarrow> scanCode \<Rightarrow> scanner \<times> scanCode" where
  "pushParseState s newParseState successState =
     (let s' = s\<lparr>parseState := newParseState # parseState s\<rparr>
      in if length (parseState s') \<le> maxNestingDepth then (s', successState) else fail s')"

definition popParseState :: "scanner \<Rightarrow> scanner" where
  "popParseState s =
     (let rest = tl (parseState s)
      in if rest = [] then s\<lparr>parseState := rest, step := EndTop, endTop := True\<rparr>
         else s\<lparr>parseState := rest, step := EndValue\<rparr>)"

definition stateEndTop :: "scanner \<Rightarrow> char \<Rightarrow> scanner \<times> scanCode" where
  "stateEndTop s c = (if \<not> isSpace c then (fst (fail s), scanEnd) else (s, scanEnd))"

definition stateEndValue :: "scanner \<Rightarrow> char \<Rightarrow> scanner \<times> scanCode" where
  "stateEndValue s c =
     (case parseState s of
        [] \<Rightarrow> stateEndTop (s\<lparr>step := EndTop, endTop := True\<rparr>) c
      | ps # rest \<Rightarrow>
          if isSpace c then (s\<lparr>step := EndValue\<rparr>, scanSkipSpace)
          else
            (case ps of
               parseObjectKey \<Rightarrow>
                 if c = CHR '':'' then
                   (s\<lparr>parseState := parseObjectValue # rest, step := BeginValue\<rparr>, scanObjectKey)
                 else fail s
             | parseObjectValue \<Rightarrow>
                 if c = CHR '','' then
                   (s\<lparr>parseState := parseObjectKey # rest, step := BeginString\<rparr>, scanObjectValue)
                 else if c = CHR ''}'' then (popParseState s, scanEndObject)
                 else fail s
             | parseArrayValue \<Rightarrow>
                 if c = CHR '','' then (s\<lparr>step := BeginValue\<rparr>, scanArrayValue)
                 else if c = CHR '']'' then (popParseState s, scanEndArray)
                 else fail s))"

definition stateBeginValue :: "scanner \<Rightarrow> char \<Rightarrow> scanner \<times> scanCode" where
  "stateBeginValue s c =
     (if isSpace c then (s, scanSkipSpace)
      else if c = CHR ''{'' then
        pushParseState (s\<lparr>step := BeginStringOrEmpty\<rparr>) parseObjectKey scanBeginObject
      else if c = CHR ''['' then
        pushParseState (s\<lparr>step := BeginValueOrEmpty\<rparr>) parseArrayValue scanBeginArray
      else if c = CHR 0x22 then (s\<lparr>step := InString\<rparr>, scanBeginLiteral)
      else if c = CHR ''-'' then (s\<lparr>step := Neg\<rparr>, scanBeginLiteral)
      else if c = CHR ''0'' then (s\<lparr>step := Digit0\<rparr>, scanBeginLiteral)
      else if c = CHR ''t'' then (s\<lparr>step := LitT\<rparr>, scanBeginLiteral)
      else if c = CHR ''f'' then (s\<lparr>step := LitF\<rparr>, scanBeginLiteral)
      else if c = CHR ''n'' then (s\<lparr>step := LitN\<rparr>, scanBeginLiteral)
      else if isDigit19 c then (s\<lparr>step := Digit1\<rparr>, scanBeginLiteral)
      else fail s)"

definition stateBeginString :: "scanner \<Rightarrow> char \<Rightarrow> scanner \<times> scanCode" where
  "stateBeginString s c =
     (if isSpace c then (s, scanSkipSpace)
      else if c = CHR 0x22 then (s\<lparr>step := InString\<rparr>, scanBeginLiteral)
      else fail s)"

definition state0 :: "scanner \<Rightarrow> char \<Rightarrow> scanner \<times> scanCode" where
  "state0 s c =
     (if c = CHR ''.'' then continue s Dot
      else if c = CHR ''e'' \<or> c = CHR ''E'' then continue s Exp
      else stateEndValue s c)"

definition stateESign :: "scanner \<Rightarrow> char \<Rightarrow> scanner \<times> scanCode" where
  "stateESign s c = (if isDigit c then continue s E0 else fail s)"

definition expect :: "scanner \<Rightarrow> char \<Rightarrow> char \<Rightarrow> stateName \<Rightarrow> scanner \<times> scanCode" where
  "expect s c wanted next = (if c = wanted then continue s next else fail s)"

definition stepCall :: "scanner \<Rightarrow> char \<Rightarrow> scanner \<times> scanCode" where
  "stepCall s c =
     (case step s of
        BeginValueOrEmpty \<Rightarrow>
          if isSpace c then (s, scanSkipSpace)
          else if c = CHR '']'' then stateEndValue s c
          else stateBeginValue s c
      | BeginValue \<Rightarrow> stateBeginValue s c
      | BeginStringOrEmpty \<Rightarrow>
          if isSpace c then (s, scanSkipSpace)
          else if c = CHR ''}'' then
            stateEndValue (s\<lparr>parseState := parseObjectValue # tl (parseState s)\<rparr>) c
          else stateBeginString s c
      | BeginString \<Rightarrow> stateBeginString s c
      | EndValue \<Rightarrow> stateEndValue s c
      | EndTop \<Rightarrow> stateEndTop s c
      | InString \<Rightarrow>
          if c = CHR 0x22 then continue s EndValue
          else if c = CHR 0x5C then continue s InStringEsc
          else if byte c < 0x20 then fail s
          else (s, scanContinue)
      | InStringEsc \<Rightarrow>
          if c \<in> {CHR ''b'', CHR ''f'', CHR ''n'', CHR ''r'', CHR ''t'', CHR 0x5C, CHR ''/'', CHR 0x22}
          then continue s InString
          else if c = CHR ''u'' then continue s InStringEscU
          else fail s
      | InStringEscU \<Rightarrow> if isHex c then continue s InStringEscU1 else fail s
      | InStringEscU1 \<Rightarrow> if isHex c then continue s InStringEscU12 else fail s
      | InStringEscU12 \<Rightarrow> if isHex c then continue s InStringEscU123 else fail s
      | InStringEscU123 \<Rightarrow> if isHex c then continue s InString else fail s
      | Neg \<Rightarrow>
          if c = CHR ''0'' then continue s Digit0
          else if isDigit19 c then continue s Digit1
          else fail s
      | Digit1 \<Rightarrow> if isDigit c then continue s Digit1 else state0 s c
      | Digit0 \<Rightarrow> state0 s c
      | Dot \<Rightarrow> if isDigit c then continue s Dot0 else fail s
      | Dot0 \<Rightarrow>
          if isDigit c then (s, scanContinue)
          else if c = CHR ''e'' \<or> c = CHR ''E'' then continue s Exp
          else stateEndValue s c
      | Exp \<Rightarrow>
          if c = CHR ''+'' \<or> c = CHR ''-'' then continue s ESign else stateESign s c
      | ESign \<Rightarrow> stateESign s c
      | E0 \<Rightarrow> if isDigit c then (s, scanContinue) else stateEndValue s c
      | LitT \<Rightarrow> expect s c (CHR ''r'') LitTr
      | LitTr \<Rightarrow> expect s c (CHR ''u'') LitTru
      | LitTru \<Rightarrow> expect s c (CHR ''e'') EndValue
      | LitF \<Rightarrow> expect s c (CHR ''a'') LitFa
      | LitFa \<Rightarrow> expect s c (CHR ''l'') LitFal
      | LitFal \<Rightarrow> expect s c (CHR ''s'') LitFals
      | LitFals \<Rightarrow> expect s c (CHR ''e'') EndValue
      | LitN \<Rightarrow> expect s c (CHR ''u'') LitNu
      | LitNu \<Rightarrow> expect s c (CHR ''l'') LitNul
      | LitNul \<Rightarrow> expect s c (CHR ''l'') EndValue
      | Failed \<Rightarrow> (s, scanError))"

text \<open>\<open>checkValid\<close>: every byte through the scanner, then \<open>eof\<close>.\<close>

fun scanAll :: "scanner \<Rightarrow> string \<Rightarrow> scanner option" where
  "scanAll s [] = Some s"
| "scanAll s (c # cs) =
     (case stepCall s c of (s', code) \<Rightarrow> if code = scanError then None else scanAll s' cs)"

definition eof :: "scanner \<Rightarrow> scanCode" where
  "eof s =
     (if err s then scanError
      else if endTop s then scanEnd
      else if endTop (fst (stepCall s (CHR '' ''))) then scanEnd
      else scanError)"

definition checkValid :: "string \<Rightarrow> bool" where
  "checkValid data = (case scanAll reset data of None \<Rightarrow> False | Some s \<Rightarrow> eof s \<noteq> scanError)"

text \<open>
  After \<open>checkValid\<close>, \<open>Unmarshal\<close> decodes into the target, here a
  \<open>map[string]interface{}\<close>. An object fills the map, the literal \<open>null\<close> leaves it
  nil, and any other top-level value is an \<open>UnmarshalTypeError\<close>. Inside the object every
  number literal goes through \<open>strconv.ParseFloat\<close>, whose range error (a magnitude that
  rounds to infinity in binary64) is an error of \<open>Unmarshal\<close> too.
\<close>

definition isNumberState :: "stateName \<Rightarrow> bool" where
  "isNumberState n = (n \<in> {Neg, Digit1, Digit0, Dot, Dot0, Exp, ESign, E0})"

text \<open>
  The number literals of a valid text, in order: the runs of bytes that keep the
  scanner in one of its number states.
\<close>

fun numberLiterals :: "scanner \<Rightarrow> string \<Rightarrow> string \<Rightarrow> string list" where
  "numberLiterals s cur [] = (if cur = [] then [] else [cur])"
| "numberLiterals s cur (c # cs) =
     (let s' = fst (stepCall s c)
      in if isNumberState (step s') then numberLiterals s' (cur @ [c]) cs
         else if cur = [] then numberLiterals s' [] cs
         else cur # numberLiterals s' [] cs)"

definition digitsValue :: "string \<Rightarrow> nat" where
  "digitsValue ds = foldl (\<lambda>acc d. 10 * acc + (byte d - byte (CHR ''0''))) 0 ds"

text \<open>The magnitude of a JSON number literal, as the exact rational it denotes.\<close>

definition magnitude :: "string \<Rightarrow> rat" where
  "magnitude lit =
     (let unsigned = (if lit \<noteq> [] \<and> hd lit = CHR ''-'' then tl lit else lit);
          intPart = takeWhile isDigit unsigned;
          r = dropWhile isDigit unsigned;
          fracPart = (if r \<noteq> [] \<and> hd r = CHR ''.'' then takeWhile isDigit (tl r) else []);
          r' = (if r \<noteq> [] \<and> hd r = CHR ''.'' then dropWhile isDigit (tl r) else r);
          e = (if r' = [] then 0
               else if tl r' \<noteq> [] \<and> hd (tl r') = CHR ''-'' then - int (digitsValue (tl (tl r')))
               else if tl r' \<noteq> [] \<and> hd (tl r') = CHR ''+'' then int (digitsValue (tl (tl r')))
               else int (digitsValue (tl r')));
          k = e - int (length fracPart);
          m = of_nat (digitsValue (intPart @ fracPart))
      in if 0 \<le> k then m * 10 ^ nat k else m / 10 ^ nat (- k))"

definition rangeError :: "string \<Rightarrow> bool" where
  "rangeError lit = (2 ^ 1024 - 2 ^ 970 \<le> magnitude lit)"

datatype unmarshalError = SyntaxError | UnmarshalTypeError

text \<open>
  The map that \<open>Unmarshal\<close> stores: nil, or the map holding the members of the JSON
  object written in the given text. The members are not spelled out: nothing below
  reads them.
\<close>

datatype jsonMap = NilMap | ObjectOf string

definition jsonUnmarshal :: "string \<Rightarrow> unmarshalError + jsonMap" where
  "jsonUnmarshal data =
     (if \<not> checkValid data then Inl SyntaxError
      else
        (case dropWhile isSpace data of
           [] \<Rightarrow> Inl SyntaxError
         | c # _ \<Rightarrow>
             if c = CHR ''n'' then Inr NilMap
             else if c = CHR ''{'' then
               (if list_ex rangeError (numberLiterals reset [] data) then Inl UnmarshalTypeError
                else Inr (ObjectOf data))
             else Inl UnmarshalTypeError))"


section \<open>Binary floating point\<close>

text \<open>
  Go's \<open>float64\<close> is IEEE 754 binary64, and each arithmetic operation returns the exact
  result rounded to the nearest representable value, ties to even. The finite values
  are modelled as the rationals they denote, and \<open>float64\<close> is that rounding: 53
  significant bits, gradual underflow below \<open>2 ^ -1022\<close>. Magnitudes from
  \<open>2 ^ 1024 - 2 ^ 970\<close> on would round to infinity; the cost computation on 64-bit
  token counts stays below \<open>2 ^ 63\<close>. The binary is built for amd64, where the compiler
  does not fuse a multiplication with an addition, so every operation rounds on its own.
\<close>

definition pow2 :: "int \<Rightarrow> rat" where
  "pow2 e = (if 0 \<le> e then 2 ^ nat e else 1 / 2 ^ nat (- e))"

definition roundHalfEven :: "rat \<Rightarrow> int" where
  "roundHalfEven x =
     (let f = \<lfloor>x\<rfloor>; d = x - of_int f
      in if d < 1 / 2 then f else if 1 / 2 < d then f + 1 else if even f then f else f + 1)"

text \<open>The binary exponent \<open>e\<close> of a positive rational \<open>x\<close>: \<open>2 ^ e \<le> x < 2 ^ (e + 1)\<close>.\<close>

definition ilog2 :: "rat \<Rightarrow> int" where
  "ilog2 x =
     (let (p, q) = quotient_of x; e = bitlen p - bitlen q
      in if pow2 e \<le> x then e else e - 1)"

definition float64 :: "rat \<Rightarrow> rat" where
  "float64 x =
     (if x = 0 then 0
      else
        let e = max (ilog2 \<bar>x\<bar>) (- 1022);
            ulp = pow2 (e - 52)
        in sgn x * of_int (roundHalfEven (\<bar>x\<bar> / ulp)) * ulp)"

text \<open>The conversion \<open>int(x)\<close> of a \<open>float64\<close> in the range of \<open>int\<close>: towards zero.\<close>

definition truncInt :: "rat \<Rightarrow> int" where
  "truncInt x = (if 0 \<le> x then \<lfloor>x\<rfloor> else \<lceil>x\<rceil>)"

section \<open>The upstream client\<close>

record ClaudeClient =
  apiKey :: string
  model :: string
  inputCostPerToken :: rat
  outputCostPerToken :: rat

text \<open>
  \<open>NewClaudeClient\<close>, with the value of the environment variable as its argument. The
  two prices are constant expressions, evaluated exactly and then converted to
  \<open>float64\<close>.
\<close>

definition NewClaudeClient :: "string \<Rightarrow> string + ClaudeClient" where
  "NewClaudeClient key =
     (if key = [] then Inl ''ANTHROPIC_API_KEY environment variable is required''
      else Inr \<lparr>apiKey = key, model = ''claude-sonnet-4-5-20250929'',
                 inputCostPerToken = float64 (3 / 1000000),
                 outputCostPerToken = float64 (15 / 1000000)\<rparr>)"

definition CalculateCost :: "ClaudeClient \<Rightarrow> int \<Rightarrow> int \<Rightarrow> rat" where
  "CalculateCost c inputTokens outputTokens =
     (let inputCost = float64 (float64 (of_int inputTokens) * inputCostPerToken c);
          outputCost = float64 (float64 (of_int outputTokens) * outputCostPerToken c)
      in float64 (float64 (of_int (truncInt (float64 (float64 (inputCost + outputCost) * 10000))))
                    / 10000))"

text \<open>
  The cost as the specification words it, in exact arithmetic: the two products,
  summed, cut to four decimal places.
\<close>

definition exactCost :: "int \<Rightarrow> int \<Rightarrow> rat" where
  "exactCost inputTokens outputTokens =
     of_int \<lfloor>(of_int inputTokens * (3 / 1000000) + of_int outputTokens * (15 / 1000000 :: rat))
               * 10000\<rfloor>
       / 10000"

section \<open>Requests, replies and the environment\<close>

text \<open>
  The structs of the agent protocol and of the upstream API, field by field. A
  \<open>map[string]interface{}\<close> that is only passed on is an association list over a type
  \<open>'v\<close> of values; the \<open>interface{}\<close> that holds the interpreted result is
  \<^typ>\<open>jsonMap parsed option\<close>, \<open>None\<close> for nil.
\<close>

record 'v AgentInput =
  Prompt :: string
  Context :: "(string \<times> 'v) list"

record AgentMetadata =
  RequestID :: string
  UserID :: string
  Timeout :: int

record 'v ExecuteRequest =
  Input :: "'v AgentInput"
  Metadata :: AgentMetadata

record TokenUsage =
  Input :: int
  Output :: int

record ResultMetadata =
  Cost :: rat
  Duration :: int
  Model :: string
  TokensUsed :: "TokenUsage option"

record ExecuteResponse =
  Result :: "jsonMap parsed option"
  Metadata :: ResultMetadata
  Error :: "string option"

record Pricing =
  estimatedCost :: rat
  currency :: string

record InfoResponse =
  ID :: string
  Name :: string
  Description :: string
  Version :: string
  Capabilities :: "string list"
  Pricing :: Pricing

record HealthResponse =
  Status :: string
  Timestamp :: rat

record RootResponse =
  Name :: string
  Version :: string
  Status :: string

record ClaudeMessage =
  Role :: string
  Content :: string

record ClaudeRequest =
  Model :: string
  MaxTokens :: int
  System :: string
  Messages :: "ClaudeMessage list"

record ClaudeContent =
  Type :: string
  Text :: string

record ClaudeUsage =
  InputTokens :: int
  OutputTokens :: int

record ClaudeResponse =
  ID :: string
  Type :: string
  Role :: string
  Content :: "ClaudeContent list"
  Model :: string
  Usage :: ClaudeUsage

text \<open>
  One outbound call of \<open>CreateMessage\<close>: the request it builds and the timeout of the
  \<open>http.Client\<close> it sends it with. The body is the marshalled \<open>ClaudeRequest\<close>, kept
  as the struct.
\<close>

record upstreamCall =
  callMethod :: string
  url :: string
  headers :: "(string \<times> string) list"
  payload :: ClaudeRequest
  timeoutSeconds :: nat

text \<open>What comes back from \<open>client.Do\<close> and \<open>io.ReadAll\<close>.\<close>

datatype transport = SendError string | ReadError string | Reply int string

text \<open>
  Everything a request handler takes from outside the program: the two JSON decoders
  for structs (\<open>Inl\<close> the error's text), the upstream service, the order in which
  \<open>range\<close> visits a map, the \<open>%v\<close> rendering of a context value, and the clock.
\<close>

record 'v environment =
  decodeBody :: "string \<Rightarrow> string + 'v ExecuteRequest"
  roundTrip :: "upstreamCall \<Rightarrow> transport"
  decodeReply :: "string \<Rightarrow> string + ClaudeResponse"
  rangeOrder :: "(string \<times> 'v) list \<Rightarrow> (string \<times> 'v) list"
  formatValue :: "'v \<Rightarrow> string"
  elapsedMs :: int
  unixNow :: int

text \<open>What a handler did besides answering, in order.\<close>

datatype event = DecodedBody | Called upstreamCall

record request =
  Method :: string
  Host :: string
  RequestURI :: string
  Path :: string
  RawQuery :: string
  Proto11 :: bool
  Body :: string

text \<open>
  A response body is plain text, or the JSON encoding of one of the response structs
  (what \<open>json.NewEncoder(w).Encode\<close> writes), or empty.
\<close>

datatype document =
    RootDoc RootResponse | HealthDoc HealthResponse | InfoDoc InfoResponse
  | ExecuteDoc ExecuteResponse

datatype body = PlainText string | Encoded document | NoBody

record response =
  status :: int
  header :: "(string \<times> string) list"
  body :: body

text \<open>
  How a request ends: with a response, with the reply of \<open>http.RedirectHandler\<close>
  (its status code and the target of its \<open>Location\<close> header), or in a panic.
\<close>

datatype served = Responded response | Redirected int string | Crashed panic

datatype 'a outcome = Panic panic | Failure string | Success 'a

section \<open>The agent\<close>

definition digit :: "nat \<Rightarrow> char" where
  "digit d = char_of (48 + d)"

fun decimal :: "nat \<Rightarrow> string" where
  "decimal n = (if n < 10 then [digit n] else decimal (n div 10) @ [digit (n mod 10)])"

declare decimal.simps [simp del]

text \<open>The verb \<open>%d\<close> of an \<open>int\<close>.\<close>

definition itoa :: "int \<Rightarrow> string" where
  "itoa i = (if i < 0 then CHR ''-'' # decimal (nat (- i)) else decimal (nat i))"

text \<open>
  \<open>CreateMessage\<close>. Marshalling the request struct and building the \<open>http.Request\<close>
  from the constant method and URL cannot fail, so these two error returns have no
  branch here.
\<close>

definition CreateMessage ::
  "'v environment \<Rightarrow> ClaudeClient \<Rightarrow> string \<Rightarrow> string \<Rightarrow> (string + ClaudeResponse) \<times> event list"
where
  "CreateMessage env c system userMessage =
     (let reqBody = \<lparr>ClaudeRequest.Model = ClaudeClient.model c, MaxTokens = 4000, System = system,
                      Messages = [\<lparr>ClaudeMessage.Role = ''user'',
                                   ClaudeMessage.Content = userMessage\<rparr>]\<rparr>;
          call = \<lparr>callMethod = ''POST'', url = ''https://api.anthropic.com/v1/messages'',
                   headers = [(''Content-Type'', ''application/json''),
                              (''x-api-key'', apiKey c),
                              (''anthropic-version'', ''2023-06-01'')],
                   payload = reqBody, timeoutSeconds = 60\<rparr>
      in (case roundTrip env call of
            SendError e \<Rightarrow> Inl (''failed to send request: '' @ e)
          | ReadError e \<Rightarrow> Inl (''failed to read response: '' @ e)
          | Reply statusCode replyBody \<Rightarrow>
              if statusCode \<noteq> 200 then
                Inl (''Claude API error ('' @ itoa statusCode @ ''): '' @ replyBody)
              else
                (case decodeReply env replyBody of
                   Inl e \<Rightarrow> Inl (''failed to unmarshal response: '' @ e)
                 | Inr claudeResp \<Rightarrow> Inr claudeResp),
          [Called call]))"

record GoAgent =
  client :: ClaudeClient

definition NewGoAgent :: "string \<Rightarrow> string + GoAgent" where
  "NewGoAgent key =
     (case NewClaudeClient key of Inl e \<Rightarrow> Inl e | Inr c \<Rightarrow> Inr \<lparr>client = c\<rparr>)"

definition newline :: string where
  "newline = [CHR 0x0A]"

definition quoted :: "string \<Rightarrow> string" where
  "quoted s = CHR 0x22 # s @ [CHR 0x22]"

definition buildSystemPrompt :: string where
  "buildSystemPrompt =
     ''You are a helpful AI assistant specialized in data analysis and insights.'' @ newline
     @ newline
     @ ''Your task is to analyze the provided information and generate actionable insights.''
     @ newline @ newline
     @ ''Respond with valid JSON in this format:'' @ newline
     @ ''{'' @ newline
     @ ''  '' @ quoted ''analysis'' @ '': '' @ quoted ''Your detailed analysis'' @ '','' @ newline
     @ ''  '' @ quoted ''insights'' @ '': ['' @ quoted ''insight 1'' @ '', '' @ quoted ''insight 2''
       @ '', '' @ quoted ''insight 3'' @ ''],'' @ newline
     @ ''  '' @ quoted ''recommendations'' @ '': ['' @ quoted ''recommendation 1'' @ '', ''
       @ quoted ''recommendation 2'' @ '']'' @ newline
     @ ''}''"

definition buildUserMessage :: "'v environment \<Rightarrow> string \<Rightarrow> (string \<times> 'v) list \<Rightarrow> string" where
  "buildUserMessage env prompt context =
     (let message = ''User Query: '' @ prompt @ newline @ newline
      in if context \<noteq> [] then
           message @ ''Additional Context:'' @ newline
             @ concat (map (\<lambda>(key, v). ''- '' @ key @ '': '' @ formatValue env v @ newline)
                         (rangeOrder env context))
         else message)"

text \<open>
  The map that \<open>Execute\<close> returns, one field per key; \<open>inputCount\<close> and \<open>outputCount\<close>
  are the keys \<open>input\<close> and \<open>output\<close> of the inner map.
\<close>

record tokenCounts =
  inputCount :: int
  outputCount :: int

record resultData =
  result :: "jsonMap parsed"
  cost :: rat
  duration :: int
  model :: string
  tokensUsed :: tokenCounts

definition Execute ::
  "'v environment \<Rightarrow> GoAgent \<Rightarrow> string \<Rightarrow> (string \<times> 'v) list \<Rightarrow> resultData outcome \<times> event list"
where
  "Execute env a prompt context =
     (let systemPrompt = buildSystemPrompt;
          userMessage = buildUserMessage env prompt context
      in (case CreateMessage env (client a) systemPrompt userMessage of
            (Inl e, calls) \<Rightarrow> (Failure (''Claude API call failed: '' @ e), calls)
          | (Inr response, calls) \<Rightarrow>
              (let resultText =
                     (case ClaudeResponse.Content response of [] \<Rightarrow> [] | c # _ \<Rightarrow> Text c)
               in (case parseResult jsonUnmarshal resultText of
                     Inl p \<Rightarrow> (Panic p, calls)
                   | Inr r \<Rightarrow>
                       (Success
                          \<lparr>result = r,
                           cost = CalculateCost (client a) (InputTokens (Usage response))
                                    (OutputTokens (Usage response)),
                           duration = elapsedMs env,
                           model = ClaudeClient.model (client a),
                           tokensUsed = \<lparr>inputCount = InputTokens (Usage response),
                                         outputCount = OutputTokens (Usage response)\<rparr>\<rparr>,
                        calls)))))"

section \<open>The HTTP handlers\<close>

definition jsonHeader :: "(string \<times> string) list" where
  "jsonHeader = [(''Content-Type'', ''application/json'')]"

text \<open>\<open>http.Error\<close>: a plain-text reply, the message and a newline.\<close>

definition httpError :: "string \<Rightarrow> int \<Rightarrow> response" where
  "httpError message code =
     \<lparr>status = code,
      header = [(''Content-Type'', ''text/plain; charset=utf-8''),
                (''X-Content-Type-Options'', ''nosniff'')],
      body = PlainText (message @ newline)\<rparr>"

definition rootHandler :: response where
  "rootHandler =
     \<lparr>status = 200, header = jsonHeader,
      body = Encoded (RootDoc \<lparr>RootResponse.Name = ''Mindra Go Agent'',
                                RootResponse.Version = ''1.0.0'',
                                RootResponse.Status = ''running''\<rparr>)\<rparr>"

definition healthHandler :: "'v environment \<Rightarrow> response" where
  "healthHandler env =
     \<lparr>status = 200, header = jsonHeader,
      body = Encoded (HealthDoc \<lparr>HealthResponse.Status = ''healthy'',
                                  Timestamp = float64 (of_int (unixNow env))\<rparr>)\<rparr>"

definition infoHandler :: response where
  "infoHandler =
     \<lparr>status = 200, header = jsonHeader,
      body = Encoded (InfoDoc \<lparr>InfoResponse.ID = ''agent-go-template'',
                                InfoResponse.Name = ''Go Template Agent'',
                                Description = ''Template for building Go-based agents'',
                                InfoResponse.Version = ''1.0.0'',
                                Capabilities = [''Data analysis'', ''Insight generation'',
                                                ''Custom processing''],
                                Pricing = \<lparr>estimatedCost = float64 (45 / 100),
                                            currency = ''USD''\<rparr>\<rparr>)\<rparr>"

definition executeHandler :: "'v environment \<Rightarrow> GoAgent \<Rightarrow> request \<Rightarrow> served \<times> event list" where
  "executeHandler env agent r =
     (if Method r \<noteq> ''POST'' then (Responded (httpError ''Method not allowed'' 405), [])
      else
        (case decodeBody env (Body r) of
           Inl e \<Rightarrow> (Responded (httpError (''Invalid request body: '' @ e) 400), [DecodedBody])
         | Inr req \<Rightarrow>
             (case Execute env agent (Prompt (ExecuteRequest.Input req))
                     (Context (ExecuteRequest.Input req)) of
                (Failure errMsg, calls) \<Rightarrow>
                  (Responded
                     \<lparr>status = 500, header = jsonHeader,
                      body = Encoded (ExecuteDoc
                        \<lparr>Result = None,
                         Metadata = \<lparr>Cost = 0, Duration = 0, ResultMetadata.Model = [],
                                      TokensUsed = None\<rparr>,
                         Error = Some errMsg\<rparr>)\<rparr>,
                   DecodedBody # calls)
              | (Panic p, calls) \<Rightarrow> (Crashed p, DecodedBody # calls)
              | (Success resultData, calls) \<Rightarrow>
                  (Responded
                     \<lparr>status = 200, header = jsonHeader,
                      body = Encoded (ExecuteDoc
                        \<lparr>Result = Some (result resultData),
                         Metadata = \<lparr>Cost = cost resultData, Duration = duration resultData,
                                      ResultMetadata.Model = model resultData,
                                      TokensUsed = Some \<lparr>TokenUsage.Input = inputCount (tokensUsed resultData),
                                                          Output = outputCount (tokensUsed resultData)\<rparr>\<rparr>,
                         Error = None\<rparr>)\<rparr>,
                   DecodedBody # calls))))"

section \<open>Routing\<close>

text \<open>
  \<open>main\<close> registers the four handlers with \<open>http.HandleFunc\<close> on the default
  \<open>ServeMux\<close> and serves it (the image is built with Go 1.21). This section follows
  that multiplexer: \<open>path.Clean\<close> and \<open>cleanPath\<close>, the table that \<open>Handle\<close> fills,
  \<open>match\<close>, the redirect for a missing trailing slash, and \<open>Handler\<close>.
\<close>

definition notSlash :: "char \<Rightarrow> bool" where
  "notSlash c = (c \<noteq> CHR ''/'')"

text \<open>
  The \<open>..\<close> case of \<open>path.Clean\<close> moves the write index back to the last slash, but not
  behind \<open>dotdot\<close>.
\<close>

fun backtrack :: "string \<Rightarrow> nat \<Rightarrow> nat \<Rightarrow> nat" where
  "backtrack out dotdot 0 = 0"
| "backtrack out dotdot (Suc w) =
     (if Suc w > dotdot \<and> out ! Suc w \<noteq> CHR ''/'' then backtrack out dotdot w else Suc w)"

text \<open>
  The loop of \<open>path.Clean\<close> over the rest of the path, with the output written so far.
\<close>

function cleanLoop :: "bool \<Rightarrow> string \<Rightarrow> nat \<Rightarrow> string \<Rightarrow> string" where
  "cleanLoop rooted out dotdot [] = out"
| "cleanLoop rooted out dotdot (c # cs) =
     (if c = CHR ''/'' then cleanLoop rooted out dotdot cs
      else if c = CHR ''.'' \<and> (cs = [] \<or> hd cs = CHR ''/'') then cleanLoop rooted out dotdot cs
      else if c = CHR ''.'' \<and> hd cs = CHR ''.'' \<and> (tl cs = [] \<or> hd (tl cs) = CHR ''/'') then
        (if length out > dotdot then
           cleanLoop rooted (take (backtrack out dotdot (length out - 1)) out) dotdot (tl cs)
         else if \<not> rooted then
           (let out' = (if out \<noteq> [] then out @ ''/'' else out) @ ''..''
            in cleanLoop rooted out' (length out') (tl cs))
         else cleanLoop rooted out dotdot (tl cs))
      else
        (let out' = (if (rooted \<and> length out \<noteq> 1) \<or> (\<not> rooted \<and> length out \<noteq> 0)
                     then out @ ''/'' else out)
         in cleanLoop rooted (out' @ takeWhile notSlash (c # cs)) dotdot
              (dropWhile notSlash (c # cs))))"
  by pat_completeness auto
termination
proof (relation "measure (\<lambda>(rooted, out, dotdot, rest). length rest)")
  show "wf (measure (\<lambda>(rooted, out, dotdot, rest). length rest))"
    by simp
next
  fix rooted :: bool and out :: string and dotdot :: nat and c :: char and cs x :: string
  assume "c \<noteq> CHR ''/''"
  then have "length (dropWhile notSlash (c # cs)) \<le> length cs"
    by (simp add: notSlash_def length_dropWhile_le)
  then show "((rooted, x @ takeWhile notSlash (c # cs), dotdot, dropWhile notSlash (c # cs)),
              (rooted, out, dotdot, c # cs))
             \<in> measure (\<lambda>(rooted, out, dotdot, rest). length rest)"
    by simp
qed (auto intro: le_imp_less_Suc)

declare cleanLoop.simps [simp del]

definition Clean :: "string \<Rightarrow> string" where
  "Clean path =
     (if path = [] then ''.''
      else
        let rooted = (hd path = CHR ''/'');
            out = (if rooted then cleanLoop True ''/'' 1 (tl path) else cleanLoop False [] 0 path)
        in if out = [] then ''.'' else out)"

definition cleanPath :: "string \<Rightarrow> string" where
  "cleanPath p0 =
     (if p0 = [] then ''/''
      else
        let p = (if hd p0 \<noteq> CHR ''/'' then CHR ''/'' # p0 else p0);
            np = Clean p
        in if last p = CHR ''/'' \<and> np \<noteq> ''/'' then
             (if length p = length np + 1 \<and> HasPrefix p np then p else np @ ''/'')
           else np)"

datatype handler =
    RootHandler | HealthHandler | InfoHandler | ExecuteHandler
  | RedirectHandler string int | NotFoundHandler

text \<open>
  The multiplexer's table, the fields \<open>m\<close>, \<open>es\<close> and \<open>hosts\<close> of \<open>ServeMux\<close>: \<open>mux_m\<close>
  maps a pattern to its handler, \<open>mux_es\<close> holds the patterns that end in a slash,
  longest first, and \<open>mux_hosts\<close> says whether some pattern starts with a host name.
\<close>

record ServeMux =
  mux_m :: "(string \<times> handler) list"
  mux_es :: "(string \<times> handler) list"
  mux_hosts :: bool

definition emptyMux :: ServeMux where
  "emptyMux = \<lparr>mux_m = [], mux_es = [], mux_hosts = False\<rparr>"

fun appendSorted :: "(string \<times> handler) list \<Rightarrow> string \<times> handler \<Rightarrow> (string \<times> handler) list" where
  "appendSorted [] e = [e]"
| "appendSorted (x # xs) e =
     (if length (fst x) < length (fst e) then e # x # xs else x # appendSorted xs e)"

text \<open>
  \<open>Handle\<close>, for a pattern that is not empty and not registered yet (it panics
  otherwise, and \<open>main\<close> registers four different patterns).
\<close>

definition Handle :: "ServeMux \<Rightarrow> string \<Rightarrow> handler \<Rightarrow> ServeMux" where
  "Handle mux pattern h =
     mux\<lparr>mux_m := (pattern, h) # mux_m mux,
         mux_es := (if last pattern = CHR ''/'' then appendSorted (mux_es mux) (pattern, h)
                    else mux_es mux),
         mux_hosts := (mux_hosts mux \<or> hd pattern \<noteq> CHR ''/'')\<rparr>"

definition DefaultServeMux :: ServeMux where
  "DefaultServeMux =
     Handle (Handle (Handle (Handle emptyMux ''/'' RootHandler) ''/health'' HealthHandler)
               ''/info'' InfoHandler)
       ''/execute'' ExecuteHandler"

definition match :: "ServeMux \<Rightarrow> string \<Rightarrow> handler option" where
  "match mux path =
     (case map_of (mux_m mux) path of
        Some h \<Rightarrow> Some h
      | None \<Rightarrow> map_option snd (find (\<lambda>e. HasPrefix path (fst e)) (mux_es mux)))"

definition muxHandler :: "ServeMux \<Rightarrow> string \<Rightarrow> string \<Rightarrow> handler" where
  "muxHandler mux host path =
     (let h = (if mux_hosts mux then match mux (host @ path) else None);
          h' = (if h = None then match mux path else h)
      in case h' of None \<Rightarrow> NotFoundHandler | Some found \<Rightarrow> found)"

definition shouldRedirect :: "ServeMux \<Rightarrow> string \<Rightarrow> string \<Rightarrow> bool" where
  "shouldRedirect mux host path =
     (if map_of (mux_m mux) path \<noteq> None \<or> map_of (mux_m mux) (host @ path) \<noteq> None then False
      else if path = [] then False
      else if map_of (mux_m mux) (path @ ''/'') \<noteq> None \<or> map_of (mux_m mux) (host @ path @ ''/'') \<noteq> None
        then last path \<noteq> CHR ''/''
      else False)"

text \<open>
  \<open>ServeMux.Handler\<close>. The field \<open>Host\<close> of the request is the host name it works
  with: \<open>r.URL.Host\<close> for a \<open>CONNECT\<close>, \<open>r.Host\<close> without its port otherwise.
\<close>

definition Handler :: "ServeMux \<Rightarrow> request \<Rightarrow> handler" where
  "Handler mux r =
     (if Method r = ''CONNECT'' then
        (if shouldRedirect mux (Host r) (Path r) then RedirectHandler (Path r @ ''/'') 301
         else muxHandler mux (Host r) (Path r))
      else
        (let path = cleanPath (Path r)
         in if shouldRedirect mux (Host r) path then RedirectHandler (path @ ''/'') 301
            else if path \<noteq> Path r then RedirectHandler path 301
            else muxHandler mux (Host r) (Path r)))"

text \<open>
  What the server does with a request: the \<open>OPTIONS *\<close> reply of the server itself,
  the multiplexer's 400 for any other request for \<open>*\<close>, and else the handler that
  \<open>Handler\<close> picks.
\<close>

definition serve :: "'v environment \<Rightarrow> GoAgent \<Rightarrow> request \<Rightarrow> served \<times> event list" where
  "serve env agent r =
     (if RequestURI r = ''*'' \<and> Method r = ''OPTIONS'' then
        (Responded \<lparr>status = 200, header = [(''Content-Length'', ''0'')], body = NoBody\<rparr>, [])
      else if RequestURI r = ''*'' then
        (Responded \<lparr>status = 400, header = (if Proto11 r then [(''Connection'', ''close'')] else []),
                     body = NoBody\<rparr>, [])
      else
        (case Handler DefaultServeMux r of
           RootHandler \<Rightarrow> (Responded rootHandler, [])
         | HealthHandler \<Rightarrow> (Responded (healthHandler env), [])
         | InfoHandler \<Rightarrow> (Responded infoHandler, [])
         | ExecuteHandler \<Rightarrow> executeHandler env agent r
         | RedirectHandler target code \<Rightarrow> (Redirected code target, [])
         | NotFoundHandler \<Rightarrow> (Responded (httpError ''404 page not found'' 404), [])))"

section \<open>A concrete environment\<close>

text \<open>
  Two request bodies that differ in their metadata only, a decoder that knows them, an
  upstream that answers \<open>hello\<close> for 2 input and 3 output tokens, and one that is down.
\<close>

definition bodyWithTimeout :: "string \<Rightarrow> string" where
  "bodyWithTimeout ms =
     ''{'' @ quoted ''input'' @ '':{'' @ quoted ''prompt'' @ '':'' @ quoted ''hi'' @ ''},''
     @ quoted ''metadata'' @ '':{'' @ quoted ''requestId'' @ '':'' @ quoted ''r1'' @ '',''
     @ quoted ''userId'' @ '':'' @ quoted ''u1'' @ '','' @ quoted ''timeout'' @ '':'' @ ms @ ''}}''"

definition exampleRequest :: "int \<Rightarrow> string ExecuteRequest" where
  "exampleRequest ms =
     \<lparr>ExecuteRequest.Input = \<lparr>Prompt = ''hi'', Context = []\<rparr>,
      ExecuteRequest.Metadata = \<lparr>RequestID = ''r1'', UserID = ''u1'', Timeout = ms\<rparr>\<rparr>"

definition exampleDecode :: "string \<Rightarrow> string + string ExecuteRequest" where
  "exampleDecode b =
     (if b = bodyWithTimeout ''1000'' then Inr (exampleRequest 1000)
      else if b = bodyWithTimeout ''5'' then Inr (exampleRequest 5)
      else Inl ''unexpected end of JSON input'')"

definition exampleReply :: ClaudeResponse where
  "exampleReply =
     \<lparr>ClaudeResponse.ID = ''msg_1'', ClaudeResponse.Type = ''message'',
      ClaudeResponse.Role = ''assistant'',
      ClaudeResponse.Content = [\<lparr>ClaudeContent.Type = ''text'', Text = ''hello''\<rparr>],
      ClaudeResponse.Model = ''claude-sonnet-4-5-20250929'',
      Usage = \<lparr>InputTokens = 2, OutputTokens = 3\<rparr>\<rparr>"

definition exampleEnv :: "string environment" where
  "exampleEnv =
     \<lparr>decodeBody = exampleDecode,
      roundTrip = (\<lambda>call. Reply 200 ''{}''),
      decodeReply = (\<lambda>b. Inr exampleReply),
      rangeOrder = (\<lambda>context. context),
      formatValue = (\<lambda>v. v),
      elapsedMs = 1523,
      unixNow = 1704654321\<rparr>"

definition downEnv :: "string environment" where
  "downEnv = exampleEnv\<lparr>roundTrip := (\<lambda>call. SendError ''context deadline exceeded'')\<rparr>"

definition exampleAgent :: GoAgent where
  "exampleAgent =
     \<lparr>client = \<lparr>apiKey = ''sk'', model = ''claude-sonnet-4-5-20250929'',
                  inputCostPerToken = float64 (3 / 1000000),
                  outputCostPerToken = float64 (15 / 1000000)\<rparr>\<rparr>"

text \<open>The call that \<open>CreateMessage\<close> makes for the prompt \<open>hi\<close> without context.\<close>

definition exampleCall :: upstreamCall where
  "exampleCall =
     \<lparr>callMethod = ''POST'', url = ''https://api.anthropic.com/v1/messages'',
      headers = [(''Content-Type'', ''application/json''), (''x-api-key'', ''sk''),
                 (''anthropic-version'', ''2023-06-01'')],
      payload = \<lparr>ClaudeRequest.Model = ''claude-sonnet-4-5-20250929'', MaxTokens = 4000,
                  System = buildSystemPrompt,
                  Messages = [\<lparr>ClaudeMessage.Role = ''user'',
                               ClaudeMessage.Content = ''User Query: hi'' @ newline @ newline\<rparr>]\<rparr>,
      timeoutSeconds = 60\<rparr>"

definition exampleGet :: "string \<Rightarrow> request" where
  "exampleGet p =
     \<lparr>Method = ''GET'', Host = ''localhost'', RequestURI = p, Path = p, RawQuery = [],
      Proto11 = True, Body = []\<rparr>"

definition examplePost :: "string \<Rightarrow> string \<Rightarrow> request" where
  "examplePost p b =
     \<lparr>Method = ''POST'', Host = ''localhost'', RequestURI = p, Path = p, RawQuery = [],
      Proto11 = True, Body = b\<rparr>"


section \<open>Properties of the byte-string functions\<close>




lemma Split_None: "Index s sep = None \<Longrightarrow> Split s sep = [s]"
  by (subst Split.simps) simp




lemma HasPrefix_iff: "HasPrefix s p \<longleftrightarrow> (\<exists>t. s = p @ t)"
  by (auto simp: HasPrefix_def) (metis append_take_drop_id)





lemma HasPrefix_extend: "HasPrefix s p \<Longrightarrow> HasPrefix (s @ t) p"
  by (auto simp: HasPrefix_iff)



section \<open>Properties of the cost computation\<close>

lemma pow2_powi: "pow2 e = 2 powi e"
  by (simp add: pow2_def power_int_def inverse_eq_divide power_one_over)

lemma pow2_pos: "0 < pow2 e"
  by (simp add: pow2_powi)

lemma pow2_add: "pow2 (a + b) = pow2 a * pow2 b"
  by (simp add: pow2_powi power_int_add)

lemma pow2_mono: "a \<le> b \<Longrightarrow> pow2 a \<le> pow2 b"
  by (simp add: pow2_powi power_int_increasing)

lemma pow2_nat: "0 \<le> e \<Longrightarrow> pow2 e = of_int (2 ^ nat e)"
  by (simp add: pow2_def)

lemma roundHalfEven_of_int: "roundHalfEven (of_int n) = n"
  by (simp add: roundHalfEven_def)

lemma roundHalfEven_bounds: "\<lfloor>x\<rfloor> \<le> roundHalfEven x \<and> roundHalfEven x \<le> \<lfloor>x\<rfloor> + 1"
  by (simp add: roundHalfEven_def Let_def)

lemma roundHalfEven_mono:
  assumes "x \<le> y"
  shows "roundHalfEven x \<le> roundHalfEven y"
proof (cases "\<lfloor>x\<rfloor> = \<lfloor>y\<rfloor>")
  case True
  with assms have "x - of_int \<lfloor>x\<rfloor> \<le> y - of_int \<lfloor>y\<rfloor>" by simp
  with True show ?thesis by (auto simp: roundHalfEven_def Let_def)
next
  case False
  with assms have "\<lfloor>x\<rfloor> + 1 \<le> \<lfloor>y\<rfloor>"
    using floor_mono [OF assms] by linarith
  with roundHalfEven_bounds [of x] roundHalfEven_bounds [of y] show ?thesis by linarith
qed

lemma roundHalfEven_ge: "of_int n \<le> x \<Longrightarrow> n \<le> roundHalfEven x"
  using roundHalfEven_mono [of "of_int n" x] by (simp add: roundHalfEven_of_int)

lemma roundHalfEven_le: "x \<le> of_int n \<Longrightarrow> roundHalfEven x \<le> n"
  using roundHalfEven_mono [of x "of_int n"] by (simp add: roundHalfEven_of_int)

lemma ilog2_bounds:
  assumes "0 < x"
  shows "pow2 (ilog2 x) \<le> x \<and> x < pow2 (ilog2 x + 1)"
proof -
  obtain p q where pq: "quotient_of x = (p, q)" by (cases "quotient_of x")
  then have q: "0 < q" and x: "x = of_int p / of_int q"
    by (simp_all add: quotient_of_denom_pos quotient_of_div)
  with assms have p: "0 < p"
    by (simp add: zero_less_divide_iff)
  define bp bq where "bp = bitlen p" and "bq = bitlen q"
  have bp: "2 ^ nat (bp - 1) \<le> p" "p < 2 ^ nat bp" and bq: "2 ^ nat (bq - 1) \<le> q" "q < 2 ^ nat bq"
    using bitlen_bounds [OF p] bitlen_bounds [OF q] by (simp_all add: bp_def bq_def)
  have pos: "1 \<le> bp" "1 \<le> bq"
    using p q by (simp_all add: bp_def bq_def bitlen_alt_def)
  have rp: "pow2 (bp - 1) \<le> of_int p" "of_int p < pow2 bp"
    and rq: "pow2 (bq - 1) \<le> of_int q" "of_int q < pow2 bq"
    using bp bq pos by (simp_all add: pow2_nat del: of_int_power flip: of_int_le_iff of_int_less_iff)
  have up: "x < pow2 (bp - bq + 1)"
  proof -
    have "x * pow2 (bq - 1) \<le> x * of_int q"
      using rq(1) assms by simp
    also have "\<dots> = of_int p" using q by (simp add: x)
    also have "\<dots> < pow2 bp" by (rule rp)
    also have "\<dots> = pow2 (bp - bq + 1) * pow2 (bq - 1)"
      by (simp flip: pow2_add)
    finally show ?thesis using pow2_pos [of "bq - 1"] by simp
  qed
  have lo: "pow2 (bp - bq - 1) \<le> x"
  proof -
    have "pow2 (bp - bq - 1) * of_int q \<le> pow2 (bp - bq - 1) * pow2 bq"
      using rq(2) pow2_pos [of "bp - bq - 1"] by simp
    also have "\<dots> = pow2 (bp - 1)" by (simp flip: pow2_add)
    also have "\<dots> \<le> of_int p" by (rule rp)
    finally show ?thesis using q by (simp add: x pos_le_divide_eq)
  qed
  show ?thesis
    using up lo by (auto simp: ilog2_def pq bp_def bq_def Let_def)
qed


lemma float64_pos_def:
  "0 < a \<Longrightarrow> float64 a =
     of_int (roundHalfEven (a / pow2 (max (ilog2 a) (- 1022) - 52))) * pow2 (max (ilog2 a) (- 1022) - 52)"
  by (simp add: float64_def Let_def)

lemma float64_upper:
  assumes "0 < a"
  shows "float64 a \<le> pow2 (max (ilog2 a) (- 1022) + 1)"
proof -
  define e where "e = max (ilog2 a) (- 1022)"
  have "a < pow2 (ilog2 a + 1)" using ilog2_bounds [OF assms] by simp
  also have "\<dots> \<le> pow2 (e + 1)" by (rule pow2_mono) (simp add: e_def)
  also have eq: "\<dots> = pow2 53 * pow2 (e - 52)"
    using pow2_add [of 53 "e - 52"] by (simp add: add.commute)
  finally have "a / pow2 (e - 52) \<le> of_int (2 ^ 53)"
    using pow2_pos [of "e - 52"] by (simp add: pos_divide_le_eq pow2_def)
  then have "roundHalfEven (a / pow2 (e - 52)) \<le> 2 ^ 53"
    by (rule roundHalfEven_le)
  then have "(of_int (roundHalfEven (a / pow2 (e - 52))) :: rat) \<le> of_int (2 ^ 53)"
    by (simp only: of_int_le_iff)
  then have "of_int (roundHalfEven (a / pow2 (e - 52))) * pow2 (e - 52) \<le> pow2 53 * pow2 (e - 52)"
    using pow2_pos [of "e - 52"] by (simp add: pow2_def)
  then have "of_int (roundHalfEven (a / pow2 (e - 52))) * pow2 (e - 52) \<le> pow2 (e + 1)"
    by (simp only: eq)
  then show ?thesis
    using assms by (simp only: float64_pos_def e_def)
qed

lemma float64_lower:
  assumes "0 < a" and "- 1022 \<le> ilog2 a"
  shows "pow2 (ilog2 a) \<le> float64 a"
proof -
  define e where "e = ilog2 a"
  have m: "max (ilog2 a) (- 1022) = e" using assms(2) by (simp add: e_def)
  have eq: "pow2 52 * pow2 (e - 52) = pow2 e"
    using pow2_add [of 52 "e - 52"] by simp
  also have "\<dots> \<le> a" using ilog2_bounds [OF assms(1)] by (simp add: e_def)
  finally have "of_int (2 ^ 52) \<le> a / pow2 (e - 52)"
    using pow2_pos [of "e - 52"] by (simp add: pos_le_divide_eq pow2_def)
  then have "2 ^ 52 \<le> roundHalfEven (a / pow2 (e - 52))"
    by (rule roundHalfEven_ge)
  then have "(of_int (2 ^ 52) :: rat) \<le> of_int (roundHalfEven (a / pow2 (e - 52)))"
    by (simp only: of_int_le_iff)
  then have "pow2 52 * pow2 (e - 52) \<le> of_int (roundHalfEven (a / pow2 (e - 52))) * pow2 (e - 52)"
    using pow2_pos [of "e - 52"] by (simp add: pow2_def)
  then have "pow2 e \<le> of_int (roundHalfEven (a / pow2 (e - 52))) * pow2 (e - 52)"
    by (simp only: eq)
  then show ?thesis
    using assms(1) by (simp only: float64_pos_def m) (simp add: e_def)
qed

lemma float64_nonneg:
  assumes "0 < a"
  shows "0 \<le> float64 a"
proof -
  define u where "u = pow2 (max (ilog2 a) (- 1022) - 52)"
  have "0 < u" by (simp add: u_def pow2_pos)
  with assms have "of_int 0 \<le> a / u" by simp
  then have "0 \<le> roundHalfEven (a / u)" by (rule roundHalfEven_ge)
  with \<open>0 < u\<close> show ?thesis
    using assms by (simp add: float64_pos_def flip: u_def)
qed

lemma ilog2_mono:
  assumes "0 < a" and "a \<le> b"
  shows "ilog2 a \<le> ilog2 b"
proof (rule ccontr)
  assume "\<not> ilog2 a \<le> ilog2 b"
  then have "ilog2 b + 1 \<le> ilog2 a" by simp
  then have "pow2 (ilog2 b + 1) \<le> pow2 (ilog2 a)" by (rule pow2_mono)
  moreover have "b < pow2 (ilog2 b + 1)" "pow2 (ilog2 a) \<le> a"
    using ilog2_bounds [of a] ilog2_bounds [of b] assms by simp_all
  ultimately show False using assms(2) by linarith
qed

lemma float64_mono_pos:
  assumes "0 < a" and "a \<le> b"
  shows "float64 a \<le> float64 b"
proof -
  have b: "0 < b" using assms by linarith
  define ea eb where "ea = max (ilog2 a) (- 1022)" and "eb = max (ilog2 b) (- 1022)"
  have le: "ea \<le> eb" using ilog2_mono [OF assms] by (simp add: ea_def eb_def)
  show ?thesis
  proof (cases "ea = eb")
    case True
    have "a / pow2 (ea - 52) \<le> b / pow2 (ea - 52)"
      using assms(2) pow2_pos [of "ea - 52"] by (simp add: divide_right_mono)
    then have "roundHalfEven (a / pow2 (ea - 52)) \<le> roundHalfEven (b / pow2 (ea - 52))"
      by (rule roundHalfEven_mono)
    then have "(of_int (roundHalfEven (a / pow2 (ea - 52))) :: rat) * pow2 (ea - 52)
        \<le> of_int (roundHalfEven (b / pow2 (ea - 52))) * pow2 (ea - 52)"
      using pow2_pos [of "ea - 52"] by simp
    then show ?thesis
      using assms(1) b True by (simp add: float64_pos_def flip: ea_def eb_def)
  next
    case False
    with le have lt: "ea + 1 \<le> eb" by simp
    then have "- 1022 \<le> ilog2 b" and eb: "eb = ilog2 b"
      by (simp_all add: ea_def eb_def max_def split: if_splits)
    then have "pow2 eb \<le> float64 b"
      using float64_lower [OF b] by simp
    moreover have "float64 a \<le> pow2 (ea + 1)"
      using float64_upper [OF assms(1)] by (simp add: ea_def)
    moreover have "pow2 (ea + 1) \<le> pow2 eb"
      using lt by (rule pow2_mono)
    ultimately show ?thesis by linarith
  qed
qed

lemma float64_minus: "float64 (- x) = - float64 x"
  by (simp add: float64_def Let_def sgn_minus)

lemma float64_zero: "float64 0 = 0"
  by (simp add: float64_def)

lemma float64_mono:
  assumes "x \<le> y"
  shows "float64 x \<le> float64 y"
proof -
  consider "0 < x" | "x = 0" "0 < y" | "x = 0" "y = 0" | "x < 0" "0 \<le> y" | "y < 0"
    using assms by linarith
  then show ?thesis
  proof cases
    case 1
    then show ?thesis using assms by (rule float64_mono_pos)
  next
    case 2
    then show ?thesis using float64_nonneg [of y] by (simp add: float64_zero)
  next
    case 3
    then show ?thesis by simp
  next
    case 4
    then have "0 \<le> float64 (- x)" using float64_nonneg [of "- x"] by simp
    moreover have "0 \<le> float64 y"
      using 4 float64_nonneg [of y] by (cases "y = 0") (simp_all add: float64_zero)
    ultimately show ?thesis by (simp add: float64_minus)
  next
    case 5
    then have "float64 (- y) \<le> float64 (- x)"
      using assms by (intro float64_mono_pos) simp_all
    then show ?thesis by (simp add: float64_minus)
  qed
qed


lemma float64_nonneg': "0 \<le> x \<Longrightarrow> 0 \<le> float64 x"
  using float64_nonneg [of x] by (cases "x = 0") (simp_all add: float64_zero)

lemma truncInt_mono: "x \<le> y \<Longrightarrow> truncInt x \<le> truncInt y"
  by (auto simp: truncInt_def floor_mono ceiling_mono) (meson ceiling_le_zero floor_mono le_floor_iff order_trans zero_le_floor less_imp_le not_le)

lemma float64_of_int_integral: "\<exists>m. float64 (of_int t) = of_int m"
proof -
  have pos: "\<exists>m. float64 (of_int t) = of_int m" if "0 < t" for t :: int
  proof -
    define a :: rat where "a = of_int t"
    have a: "0 < a" "1 \<le> a" using that by (simp_all add: a_def)
    have "pow2 0 \<le> a" using a by (simp add: pow2_def)
    also have "a < pow2 (ilog2 a + 1)" using ilog2_bounds [OF a(1)] by simp
    finally have "0 < ilog2 a + 1"
      using pow2_mono [of "ilog2 a + 1" 0] by (cases "0 < ilog2 a + 1") auto
    then have e: "max (ilog2 a) (- 1022) = ilog2 a" "0 \<le> ilog2 a" by simp_all
    show ?thesis
    proof (cases "52 \<le> ilog2 a")
      case True
      then have "pow2 (ilog2 a - 52) = of_int (2 ^ nat (ilog2 a - 52))"
        by (simp add: pow2_nat)
      then have "float64 a = of_int (roundHalfEven (a / pow2 (ilog2 a - 52)) * 2 ^ nat (ilog2 a - 52))"
        using a(1) by (simp add: float64_pos_def e)
      then show ?thesis unfolding a_def by blast
    next
      case False
      then have "pow2 (52 - ilog2 a) = of_int (2 ^ nat (52 - ilog2 a))"
        by (simp add: pow2_nat)
      moreover have "pow2 (52 - ilog2 a) * pow2 (ilog2 a - 52) = 1"
        using pow2_add [of "52 - ilog2 a" "ilog2 a - 52"] by (simp add: pow2_def)
      ultimately have d: "a / pow2 (ilog2 a - 52) = of_int (t * 2 ^ nat (52 - ilog2 a))"
        using pow2_pos [of "ilog2 a - 52"]
        by (simp add: a_def field_simps)
      have "float64 a = of_int (t * 2 ^ nat (52 - ilog2 a)) * pow2 (ilog2 a - 52)"
        using a(1) by (simp only: float64_pos_def e d roundHalfEven_of_int)
      also have "\<dots> = a * (pow2 (52 - ilog2 a) * pow2 (ilog2 a - 52))"
        using \<open>pow2 (52 - ilog2 a) = of_int (2 ^ nat (52 - ilog2 a))\<close> by (simp add: a_def)
      also have "\<dots> = of_int t"
        using \<open>pow2 (52 - ilog2 a) * pow2 (ilog2 a - 52) = 1\<close> by (simp add: a_def)
      finally show ?thesis unfolding a_def by blast
    qed
  qed
  consider "0 < t" | "t = 0" | "t < 0" by linarith
  then show ?thesis
  proof cases
    case 1
    then show ?thesis by (rule pos)
  next
    case 2
    then show ?thesis by (simp add: float64_zero)
  next
    case 3
    then obtain m where "float64 (of_int (- t)) = of_int m" using pos [of "- t"] by auto
    then have "float64 (of_int t) = of_int (- m)"
      using float64_minus [of "of_int t"] by simp
    then show ?thesis by blast
  qed
qed

lemma prices_nonneg:
  assumes "NewClaudeClient key = Inr c"
  shows "0 \<le> inputCostPerToken c" "0 \<le> outputCostPerToken c"
  using assms float64_nonneg' [of "3 / 1000000"] float64_nonneg' [of "15 / 1000000"]
  by (auto simp: NewClaudeClient_def split: if_splits)

text \<open>The value that \<open>CalculateCost\<close> converts to \<open>int\<close>, as an expression of its own.\<close>

lemma scaled_mono:
  assumes c: "0 \<le> inputCostPerToken c" "0 \<le> outputCostPerToken c"
    and "i \<le> i'" and "j \<le> j'"
  shows "float64 (float64 (float64 (float64 (of_int i) * inputCostPerToken c)
            + float64 (float64 (of_int j) * outputCostPerToken c)) * 10000)
       \<le> float64 (float64 (float64 (float64 (of_int i') * inputCostPerToken c)
            + float64 (float64 (of_int j') * outputCostPerToken c)) * 10000)"
proof -
  define a a' where "a = float64 (float64 (of_int i) * inputCostPerToken c)"
    and "a' = float64 (float64 (of_int i') * inputCostPerToken c)"
  define b b' where "b = float64 (float64 (of_int j) * outputCostPerToken c)"
    and "b' = float64 (float64 (of_int j') * outputCostPerToken c)"
  have "float64 (of_int i) \<le> float64 (of_int i')" "float64 (of_int j) \<le> float64 (of_int j')"
    using assms by (simp_all add: float64_mono)
  then have "a \<le> a'" and "b \<le> b'"
    using c by (simp_all add: a_def a'_def b_def b'_def float64_mono mult_right_mono)
  then have "a + b \<le> a' + b'"
    by (rule add_mono)
  then have "float64 (a + b) * 10000 \<le> float64 (a' + b') * 10000"
    by (simp add: float64_mono)
  then have "float64 (float64 (a + b) * 10000) \<le> float64 (float64 (a' + b') * 10000)"
    by (rule float64_mono)
  then show ?thesis
    by (simp only: a_def a'_def b_def b'_def)
qed

lemma CalculateCost_mono:
  assumes c: "0 \<le> inputCostPerToken c" "0 \<le> outputCostPerToken c"
    and "i \<le> i'" and "j \<le> j'"
  shows "CalculateCost c i j \<le> CalculateCost c i' j'"
  unfolding CalculateCost_def Let_def
  by (intro float64_mono divide_right_mono iffD2 [OF of_int_le_iff] truncInt_mono
        scaled_mono [OF assms]) simp

lemma truncInt_nonneg: "0 \<le> x \<Longrightarrow> 0 \<le> truncInt x"
  by (simp add: truncInt_def)

lemma scaled_nonneg:
  assumes c: "0 \<le> inputCostPerToken c" "0 \<le> outputCostPerToken c"
    and "0 \<le> i" and "0 \<le> j"
  shows "0 \<le> float64 (float64 (float64 (float64 (of_int i) * inputCostPerToken c)
            + float64 (float64 (of_int j) * outputCostPerToken c)) * 10000)"
proof -
  have "0 \<le> float64 (of_int i)" "0 \<le> float64 (of_int j)"
    using assms by (simp_all add: float64_nonneg')
  then have "0 \<le> float64 (of_int i) * inputCostPerToken c"
    "0 \<le> float64 (of_int j) * outputCostPerToken c"
    using c by simp_all
  then have "0 \<le> float64 (float64 (of_int i) * inputCostPerToken c)
      + float64 (float64 (of_int j) * outputCostPerToken c)"
    by (simp add: float64_nonneg')
  then have "0 \<le> float64 (float64 (float64 (of_int i) * inputCostPerToken c)
      + float64 (float64 (of_int j) * outputCostPerToken c)) * 10000"
    by (simp add: float64_nonneg')
  then show ?thesis
    by (rule float64_nonneg')
qed

lemma CalculateCost_four_places:
  assumes c: "0 \<le> inputCostPerToken c" "0 \<le> outputCostPerToken c"
    and "0 \<le> i" and "0 \<le> j"
  shows "\<exists>k\<ge>0. CalculateCost c i j = float64 (of_int k / 10000)"
proof -
  define t where "t = truncInt (float64 (float64 (float64 (float64 (of_int i) * inputCostPerToken c)
      + float64 (float64 (of_int j) * outputCostPerToken c)) * 10000))"
  have "0 \<le> t"
    unfolding t_def by (intro truncInt_nonneg scaled_nonneg assms)
  obtain k where k: "float64 (of_int t) = of_int k"
    using float64_of_int_integral by blast
  have "0 \<le> float64 (of_int t)"
    using \<open>0 \<le> t\<close> by (simp add: float64_nonneg')
  with k have "0 \<le> k" by simp
  moreover have "CalculateCost c i j = float64 (of_int k / 10000)"
    by (simp add: CalculateCost_def Let_def k flip: t_def)
  ultimately show ?thesis by blast
qed

lemma scaled_max:
  "float64 (float64 (float64 (float64 (of_int (2 ^ 63 - 1)) * float64 (3 / 1000000))
      + float64 (float64 (of_int (2 ^ 63 - 1)) * float64 (15 / 1000000))) * 10000) < 2 ^ 63"
  by code_simp

text \<open>
  For token counts of a 64-bit \<open>int\<close> that are not negative, the value handed to
  the conversion \<open>int(...)\<close> is within the range of \<open>int\<close>.
\<close>

lemma conversion_in_range:
  assumes "NewClaudeClient key = Inr c" and "0 \<le> i" "i < 2 ^ 63" and "0 \<le> j" "j < 2 ^ 63"
  shows "0 \<le> float64 (float64 (float64 (float64 (of_int i) * inputCostPerToken c)
            + float64 (float64 (of_int j) * outputCostPerToken c)) * 10000)
       \<and> float64 (float64 (float64 (float64 (of_int i) * inputCostPerToken c)
            + float64 (float64 (of_int j) * outputCostPerToken c)) * 10000) < 2 ^ 63"
proof -
  have c: "inputCostPerToken c = float64 (3 / 1000000)" "outputCostPerToken c = float64 (15 / 1000000)"
    using assms(1) by (auto simp: NewClaudeClient_def split: if_splits)
  have le: "i \<le> 2 ^ 63 - 1" "j \<le> 2 ^ 63 - 1"
    using assms by simp_all
  have "float64 (float64 (float64 (float64 (of_int i) * inputCostPerToken c)
            + float64 (float64 (of_int j) * outputCostPerToken c)) * 10000) < 2 ^ 63"
    using scaled_mono [OF prices_nonneg [OF assms(1)] le] scaled_max
    unfolding c by (rule le_less_trans)
  with scaled_nonneg [OF prices_nonneg [OF assms(1)] assms(2) assms(4)] show ?thesis
    by blast
qed

lemma cost_95_1:
  "CalculateCost \<lparr>apiKey = ''sk'', model = ''claude-sonnet-4-5-20250929'',
      inputCostPerToken = float64 (3 / 1000000), outputCostPerToken = float64 (15 / 1000000)\<rparr> 95 1
    = float64 (2 / 10000)"
  by code_simp

lemma exactCost_95_1: "exactCost 95 1 = 3 / 10000"
  by (simp add: exactCost_def)

lemma float64_2_3: "float64 (2 / 10000) < float64 (3 / 10000)"
  by code_simp

text \<open>
  C1. For 95 input tokens and 1 output token the two products sum up to 0.0003
  exactly, which cut to four decimal places is 0.0003; \<open>CalculateCost\<close> returns the
  \<open>float64\<close> of 0.0002, since the sum it computes in binary floating point, times
  10000, is just below 3 when it is cut to an integer.
\<close>

theorem CalculateCost_defect:
  "\<exists>c. NewClaudeClient ''sk'' = Inr c \<and> CalculateCost c 95 1 = float64 (2 / 10000)
     \<and> exactCost 95 1 = 3 / 10000 \<and> float64 (2 / 10000) < float64 (3 / 10000)"
  using cost_95_1 exactCost_95_1 float64_2_3 by (simp add: NewClaudeClient_def)

text \<open>
  C2. For token counts that are not negative, \<open>CalculateCost\<close> does not decrease when
  either count grows, and what it returns is the \<open>float64\<close> of a decimal with four
  places, \<open>k / 10000\<close> for a natural number \<open>k\<close>.
\<close>

theorem CalculateCost_monotone:
  assumes "NewClaudeClient key = Inr c"
    and "0 \<le> i" and "i \<le> i'" and "i' < 2 ^ 63"
    and "0 \<le> j" and "j \<le> j'" and "j' < 2 ^ 63"
  shows "CalculateCost c i j \<le> CalculateCost c i' j
       \<and> CalculateCost c i j \<le> CalculateCost c i j'
       \<and> (\<exists>k\<ge>0. CalculateCost c i j = float64 (of_int k / 10000))"
  using CalculateCost_mono [OF prices_nonneg [OF assms(1)], of i i' j j]
    CalculateCost_mono [OF prices_nonneg [OF assms(1)], of i i j j']
    CalculateCost_four_places [OF prices_nonneg [OF assms(1)], of i j] assms
  by simp

theorem CalculateCost_monotone_witness:
  "\<exists>c. NewClaudeClient ''sk'' = Inr c
     \<and> CalculateCost c 94 1 \<le> CalculateCost c 95 1
     \<and> CalculateCost c 94 1 \<le> CalculateCost c 94 2
     \<and> (\<exists>k\<ge>0. CalculateCost c 94 1 = float64 (of_int k / 10000))"
proof -
  obtain c where c: "NewClaudeClient ''sk'' = Inr c"
    by (simp add: NewClaudeClient_def)
  from CalculateCost_monotone [OF c, of 94 95 1 2] c show ?thesis
    by auto
qed

section \<open>Properties of the result interpreter\<close>

lemma cleanText_Inr: "\<exists>c. cleanText text = Inr c"
  by (simp add: cleanText_def index_def Let_def)




















text \<open>
  C3. The result interpreter is total: for every input string, whatever the JSON
  decoder answers, \<open>parseResult\<close> returns a value; none of its slice indexings panics.
\<close>

theorem parseResult_total: "\<exists>r. parseResult unmarshal text = Inr r"
proof -
  obtain c where "cleanText text = Inr c"
    using cleanText_Inr by blast
  then show ?thesis
    by (cases "unmarshal c") (simp_all add: parseResult_def)
qed

theorem parseResult_total_witness: "\<exists>r. parseResult jsonUnmarshal [] = Inr r"
  by (rule parseResult_total)




section \<open>Properties of the HTTP surface\<close>

lemma mux_table:
  "mux_m DefaultServeMux = [(''/execute'', ExecuteHandler), (''/info'', InfoHandler), (''/health'', HealthHandler), (''/'', RootHandler)]"
  "mux_es DefaultServeMux = [(''/'', RootHandler)]"
  "mux_hosts DefaultServeMux = False"
  by (simp_all add: DefaultServeMux_def Handle_def emptyMux_def)

lemma shouldRedirect_never: "\<not> shouldRedirect DefaultServeMux host path"
  by (auto simp: shouldRedirect_def mux_table split: if_splits)

lemma cleanPath_execute: "cleanPath ''/execute'' = ''/execute''"
  by code_simp

lemma Handler_execute:
  assumes "Path r = ''/execute''"
  shows "Handler DefaultServeMux r = ExecuteHandler"
  using assms
  by (simp add: Handler_def shouldRedirect_never cleanPath_execute muxHandler_def match_def
      mux_table Let_def)

lemma serve_execute:
  assumes "Path r = ''/execute''" and "RequestURI r \<noteq> ''*''"
  shows "serve env agent r = executeHandler env agent r"
  using assms by (simp add: serve_def Handler_execute)

lemma example_paths: "Path (exampleGet p) = p" "RequestURI (exampleGet p) = p"
  "Method (exampleGet p) = ''GET''" "Path (examplePost p b) = p" "RequestURI (examplePost p b) = p"
  "Method (examplePost p b) = ''POST''" "Body (examplePost p b) = b"
  by (simp_all add: exampleGet_def examplePost_def)


lemma exampleDecode_1000:
  "decodeBody downEnv (bodyWithTimeout ''1000'') = Inr (exampleRequest 1000)"
  "decodeBody exampleEnv (bodyWithTimeout ''1000'') = Inr (exampleRequest 1000)"
  by (simp_all add: downEnv_def exampleEnv_def exampleDecode_def)

lemma exampleDecode_5:
  "decodeBody exampleEnv (bodyWithTimeout ''5'')
     = Inr (exampleRequest 1000\<lparr>ExecuteRequest.Metadata :=
              \<lparr>RequestID = ''r1'', UserID = ''u1'', Timeout = 5\<rparr>\<rparr>)"
  by (simp add: exampleEnv_def exampleDecode_def exampleRequest_def bodyWithTimeout_def)

lemma exampleRequest_input:
  "Prompt (ExecuteRequest.Input (exampleRequest ms)) = ''hi''"
  "Context (ExecuteRequest.Input (exampleRequest ms)) = []"
  by (simp_all add: exampleRequest_def)



lemma Execute_down:
  "Execute downEnv exampleAgent ''hi'' []
     = (Failure ''Claude API call failed: failed to send request: context deadline exceeded'',
        [Called exampleCall])"
  by (simp add: Execute_def CreateMessage_def downEnv_def exampleEnv_def exampleAgent_def
      buildUserMessage_def Let_def exampleCall_def)

text \<open>
  C7. For every \<open>POST\<close> to \<open>/execute\<close> whose body decodes and whose \<open>Execute\<close> call
  fails, the answer has status 500 and a JSON body in which \<open>result\<close> is nil, the cost
  and the duration of the metadata are 0, and \<open>error\<close> is the message of the failure: an
  error and no result.
\<close>

theorem execute_failure:
  assumes "Path r = ''/execute''" and "RequestURI r \<noteq> ''*''" and "Method r = ''POST''"
    and "decodeBody env (Body r) = Inr req"
    and "Execute env agent (Prompt (ExecuteRequest.Input req)) (Context (ExecuteRequest.Input req))
           = (Failure message, calls)"
  shows "\<exists>resp doc. serve env agent r = (Responded resp, DecodedBody # calls)
           \<and> status resp = 500 \<and> header resp = jsonHeader
           \<and> body resp = Encoded (ExecuteDoc doc)
           \<and> Result doc = None \<and> Cost (ExecuteResponse.Metadata doc) = 0
           \<and> Duration (ExecuteResponse.Metadata doc) = 0 \<and> Error doc = Some message"
  using assms by (simp add: serve_execute executeHandler_def)

theorem execute_failure_witness:
  "\<exists>resp doc.
      serve downEnv exampleAgent (examplePost ''/execute'' (bodyWithTimeout ''1000''))
        = (Responded resp, [DecodedBody, Called exampleCall])
      \<and> status resp = 500 \<and> header resp = jsonHeader
      \<and> body resp = Encoded (ExecuteDoc doc)
      \<and> Result doc = None \<and> Cost (ExecuteResponse.Metadata doc) = 0
      \<and> Duration (ExecuteResponse.Metadata doc) = 0
      \<and> Error doc
          = Some ''Claude API call failed: failed to send request: context deadline exceeded''"
  using execute_failure [where r = "examplePost ''/execute'' (bodyWithTimeout ''1000'')"
      and env = downEnv and agent = exampleAgent and req = "exampleRequest 1000"
      and message = "''Claude API call failed: failed to send request: context deadline exceeded''"
      and calls = "[Called exampleCall]"]
    exampleDecode_1000(1) Execute_down
  by (simp add: example_paths exampleRequest_input)

lemma executeHandler_kinds:
  assumes "executeHandler env agent r = (Responded resp, tr)"
  shows "((status resp = 200 \<or> status resp = 500)
           \<and> map_of (header resp) ''Content-Type'' = Some ''application/json''
           \<and> (\<exists>doc. body resp = Encoded (ExecuteDoc doc) \<and> (Error doc \<noteq> None \<longleftrightarrow> status resp = 500)))
       \<or> ((status resp = 405 \<or> status resp = 400)
           \<and> map_of (header resp) ''Content-Type'' = Some ''text/plain; charset=utf-8''
           \<and> (\<exists>t. body resp = PlainText t))"
proof (cases "Method r = ''POST''")
  case False
  with assms show ?thesis by (auto simp: executeHandler_def httpError_def)
next
  case True
  show ?thesis
  proof (cases "decodeBody env (Body r)")
    case (Inl e)
    with assms True show ?thesis by (auto simp: executeHandler_def httpError_def)
  next
    case (Inr req)
    obtain res calls where e: "Execute env agent (Prompt (ExecuteRequest.Input req))
        (Context (ExecuteRequest.Input req)) = (res, calls)"
      by (cases "Execute env agent (Prompt (ExecuteRequest.Input req))
        (Context (ExecuteRequest.Input req))")
    with assms True Inr show ?thesis
      by (cases res) (auto simp: executeHandler_def jsonHeader_def)
  qed
qed

text \<open>
  C8 (as amended). The answers of the root, health and info handlers have status 200, a
  JSON body and the content type \<open>application/json\<close>. An answer of the execute handler
  either has status 200 or 500, a JSON body and the content type \<open>application/json\<close>,
  and its \<open>error\<close> field is set exactly when the status is 500; or it has status 405
  or 400 and is the plain text of \<open>http.Error\<close>, with the content type
  \<open>text/plain; charset=utf-8\<close>.
\<close>

theorem responses_typed:
  "(\<forall>resp. resp = rootHandler \<or> resp = healthHandler env \<or> resp = infoHandler \<longrightarrow>
       status resp = 200 \<and> map_of (header resp) ''Content-Type'' = Some ''application/json''
       \<and> (\<exists>doc. body resp = Encoded doc))
   \<and> (\<forall>resp tr. executeHandler env agent r = (Responded resp, tr) \<longrightarrow>
         ((status resp = 200 \<or> status resp = 500)
           \<and> map_of (header resp) ''Content-Type'' = Some ''application/json''
           \<and> (\<exists>doc. body resp = Encoded (ExecuteDoc doc) \<and> (Error doc \<noteq> None \<longleftrightarrow> status resp = 500)))
       \<or> ((status resp = 405 \<or> status resp = 400)
           \<and> map_of (header resp) ''Content-Type'' = Some ''text/plain; charset=utf-8''
           \<and> (\<exists>t. body resp = PlainText t)))"
proof -
  have "status resp = 200 \<and> map_of (header resp) ''Content-Type'' = Some ''application/json''
       \<and> (\<exists>doc. body resp = Encoded doc)"
    if "resp = rootHandler \<or> resp = healthHandler env \<or> resp = infoHandler" for resp
    using that by (auto simp: rootHandler_def healthHandler_def infoHandler_def jsonHeader_def)
  then show ?thesis
    using executeHandler_kinds [of env agent r] by blast
qed

theorem responses_typed_witness:
  "status rootHandler = 200 \<and> map_of (header rootHandler) ''Content-Type'' = Some ''application/json''
   \<and> (\<exists>resp doc.
        executeHandler downEnv exampleAgent (examplePost ''/execute'' (bodyWithTimeout ''1000''))
          = (Responded resp, [DecodedBody, Called exampleCall])
        \<and> status resp = 500
        \<and> map_of (header resp) ''Content-Type'' = Some ''application/json''
        \<and> body resp = Encoded (ExecuteDoc doc) \<and> Error doc \<noteq> None)"
proof -
  note t = responses_typed [of downEnv exampleAgent
      "examplePost ''/execute'' (bodyWithTimeout ''1000'')"]
  obtain resp where r: "executeHandler downEnv exampleAgent
        (examplePost ''/execute'' (bodyWithTimeout ''1000''))
          = (Responded resp, [DecodedBody, Called exampleCall])" "status resp = 500"
    using exampleDecode_1000(1) Execute_down
    by (simp add: executeHandler_def example_paths exampleRequest_input)
  with t [THEN conjunct2] have "map_of (header resp) ''Content-Type'' = Some ''application/json''
      \<and> (\<exists>doc. body resp = Encoded (ExecuteDoc doc) \<and> Error doc \<noteq> None)"
    by fastforce
  moreover from t [THEN conjunct1] have "status rootHandler = 200
      \<and> map_of (header rootHandler) ''Content-Type'' = Some ''application/json''"
    by blast
  ultimately show ?thesis using r by blast
qed

text \<open>
  A \<open>GET\<close> of \<open>/execute\<close> is answered in plain text, not in JSON.
\<close>

theorem responses_typed_counterexample:
  "\<exists>resp. serve exampleEnv exampleAgent (exampleGet ''/execute'') = (Responded resp, [])
      \<and> status resp = 405
      \<and> map_of (header resp) ''Content-Type'' = Some ''text/plain; charset=utf-8''
      \<and> body resp = PlainText (''Method not allowed'' @ newline)"
  by (simp add: serve_execute example_paths executeHandler_def httpError_def)

lemma CreateMessage_calls:
  "\<exists>call. snd (CreateMessage env c system userMessage) = [Called call] \<and> timeoutSeconds call = 60"
  by (simp add: CreateMessage_def Let_def)

lemma Execute_calls:
  "\<exists>call. snd (Execute env a prompt context) = [Called call] \<and> timeoutSeconds call = 60"
proof -
  obtain res calls where cm: "CreateMessage env (client a) buildSystemPrompt
      (buildUserMessage env prompt context) = (res, calls)"
    by (cases "CreateMessage env (client a) buildSystemPrompt (buildUserMessage env prompt context)")
  then obtain call where "calls = [Called call]" "timeoutSeconds call = 60"
    using CreateMessage_calls [of env "client a" buildSystemPrompt "buildUserMessage env prompt context"]
    by auto
  moreover have "snd (Execute env a prompt context) = calls"
    using cm by (auto simp: Execute_def Let_def split: sum.splits)
  ultimately show ?thesis by blast
qed

lemma executeHandler_calls:
  assumes "Called call \<in> set (snd (executeHandler env agent r))"
  shows "timeoutSeconds call = 60"
proof (cases "Method r = ''POST''")
  case False
  with assms show ?thesis by (simp add: executeHandler_def)
next
  case True
  show ?thesis
  proof (cases "decodeBody env (Body r)")
    case (Inl e)
    with assms True show ?thesis by (simp add: executeHandler_def)
  next
    case (Inr req)
    obtain c where c: "snd (Execute env agent (Prompt (ExecuteRequest.Input req))
        (Context (ExecuteRequest.Input req))) = [Called c]" "timeoutSeconds c = 60"
      using Execute_calls by blast
    obtain res calls where e: "Execute env agent (Prompt (ExecuteRequest.Input req))
        (Context (ExecuteRequest.Input req)) = (res, calls)"
      by (cases "Execute env agent (Prompt (ExecuteRequest.Input req))
        (Context (ExecuteRequest.Input req))")
    with c have "calls = [Called c]" by simp
    then have "snd (executeHandler env agent r) = [DecodedBody, Called c]"
      using True Inr e by (cases res) (simp_all add: executeHandler_def)
    with assms c show ?thesis by auto
  qed
qed

lemma Handler_Body: "Handler mux (r\<lparr>Body := b\<rparr>) = Handler mux r"
  by (simp add: Handler_def Let_def)

lemma serve_calls:
  assumes "Called call \<in> set (snd (serve env agent r))"
  shows "timeoutSeconds call = 60"
  using assms executeHandler_calls [of call env agent r]
  by (auto simp: serve_def split: if_splits handler.splits)

text \<open>
  C9. Two requests that differ only in their bodies, where the two bodies decode to
  requests that differ only in the metadata, get the same answer and cause the same
  upstream calls, in any one environment; and every upstream call is made with the
  timeout of 60 seconds.
\<close>

theorem metadata_ignored:
  assumes "decodeBody env b1 = Inr req"
    and "decodeBody env b2 = Inr (req\<lparr>ExecuteRequest.Metadata := md\<rparr>)"
  shows "serve env agent (r\<lparr>Body := b1\<rparr>) = serve env agent (r\<lparr>Body := b2\<rparr>)
       \<and> (\<forall>call. Called call \<in> set (snd (serve env agent (r\<lparr>Body := b1\<rparr>)))
              \<longrightarrow> timeoutSeconds call = 60)"
proof -
  have "executeHandler env agent (r\<lparr>Body := b1\<rparr>) = executeHandler env agent (r\<lparr>Body := b2\<rparr>)"
    using assms by (simp add: executeHandler_def)
  then have "serve env agent (r\<lparr>Body := b1\<rparr>) = serve env agent (r\<lparr>Body := b2\<rparr>)"
    by (cases "Handler DefaultServeMux r") (simp_all add: serve_def Handler_Body)
  then show ?thesis
    using serve_calls by blast
qed

theorem metadata_ignored_witness:
  "serve exampleEnv exampleAgent (examplePost ''/execute'' (bodyWithTimeout ''1000''))
     = serve exampleEnv exampleAgent (examplePost ''/execute'' (bodyWithTimeout ''5''))
   \<and> (\<exists>call. snd (serve exampleEnv exampleAgent (examplePost ''/execute'' (bodyWithTimeout ''1000'')))
               = [DecodedBody, Called call]
          \<and> timeoutSeconds call = 60)"
proof -
  note m = metadata_ignored [OF exampleDecode_1000(2) exampleDecode_5,
        of exampleAgent "examplePost ''/execute'' []"]
  have eq: "serve exampleEnv exampleAgent (examplePost ''/execute'' (bodyWithTimeout ''1000''))
     = serve exampleEnv exampleAgent (examplePost ''/execute'' (bodyWithTimeout ''5''))"
    using m [THEN conjunct1] by (simp add: examplePost_def)
  have t: "\<forall>call. Called call \<in> set (snd (serve exampleEnv exampleAgent
        (examplePost ''/execute'' (bodyWithTimeout ''1000'')))) \<longrightarrow> timeoutSeconds call = 60"
    using m [THEN conjunct2] by (simp add: examplePost_def)
  obtain call where c: "snd (Execute exampleEnv exampleAgent ''hi'' []) = [Called call]"
    using Execute_calls by blast
  obtain res calls where e: "Execute exampleEnv exampleAgent ''hi'' [] = (res, calls)"
    by (cases "Execute exampleEnv exampleAgent ''hi'' []")
  with c have "calls = [Called call]" by simp
  then have "snd (serve exampleEnv exampleAgent (examplePost ''/execute'' (bodyWithTimeout ''1000'')))
      = [DecodedBody, Called call]"
    using e exampleDecode_1000(2)
    by (cases res)
      (simp_all add: serve_execute example_paths executeHandler_def exampleRequest_input)
  with eq t show ?thesis by auto
qed


lemma backtrack_le: "backtrack out dotdot w \<le> w"
  by (induction w) (auto intro: le_SucI)











end
